theory Spec2Isabelle
  imports Main "HOL-Library.AList"
begin

section \<open>Data model of the single page router\<close>

text \<open>
  The development embeds \<^verbatim>\<open>nicegui/single_page_router.py\<close> (class
  \<^verbatim>\<open>SinglePageRouter\<close>) and the content swap of
  \<^verbatim>\<open>nicegui/elements/router_frame.py\<close> (\<^verbatim>\<open>RouterFrame.update_content\<close>,
  \<^verbatim>\<open>RouterFrame.clear\<close>).

  Python objects live in a store: a router is addressed by a number, and the frame a
  router owns is a field of the router's record. Callbacks (hooks, builders) are numbers
  too; what a callback computes is given by the record \<open>env\<close>, which also holds the
  collaborators whose code is outside the two files (the router config's resolver, the
  glob matcher of the standard library).
  An exception is a value \<open>Inl e\<close>, and a statement that raises leaves no world behind.

  The router uses its frame in four ways that the class \<^verbatim>\<open>RouterFrame\<close> of
  \<^verbatim>\<open>router_frame.py\<close> does not provide: it reads the attributes
  \<^verbatim>\<open>RouterFrame.run_safe\<close> (lines 116, 191 and 200) and \<^verbatim>\<open>user_data\<close> (lines 168 and
  240), which the class does not define; it assigns to \<^verbatim>\<open>target_url\<close> (line 273), which the class
  declares as a property without a setter; and it calls the constructor with the keywords
  \<^verbatim>\<open>base_path\<close>, \<^verbatim>\<open>on_navigate\<close> and \<^verbatim>\<open>user_data\<close> (line 77), which are no parameters
  of \<^verbatim>\<open>RouterFrame.__init__\<close>. Each of these is a definition of its own below, with
  the exception Python raises there; the calls of lines 191 and 200 are a parameter, as
  explained with the record \<open>env\<close>.
\<close>

datatype error =
  TypeError | AttributeError | KeyError | IndexError | RuntimeError | NotImplementedError | Raised nat

type_synonym router_id = nat
type_synonym hook_id = nat

text \<open>The matched route entry; the router reads its \<^verbatim>\<open>on_open\<close> attribute only.\<close>

record router_path =
  rp_pattern :: string
  rp_on_open :: "hook_id option"

datatype builder = PageNotFound | Builder nat

text \<open>\<^verbatim>\<open>SinglePageTarget\<close>, with the attributes the router reads and writes.\<close>

record target =
  original_path :: string
  valid :: bool
  router_path :: "router_path option"
  builder :: "builder option"
  title :: "string option"
  path_args :: "(string \<times> string) list"
  query_args :: "(string \<times> string) list"
  fragment :: "string option"
  router :: "router_id option"
  on_pre_update :: "hook_id option"
  on_post_update :: "hook_id option"

datatype pyval = VStr string | VTarget target | VRouter router_id | VObj nat

text \<open>A Python \<^verbatim>\<open>dict\<close> with string keys: an association list in insertion order.\<close>

type_synonym kwargs = "(string \<times> pyval) list"

datatype nav_target = Url string | Tgt target

datatype router_config =
  RouterConfig (cfg_name: nat) (cfg_base_path: string) (cfg_on_open: "hook_id option")
    (parent_config: "router_config option")

datatype element = Label string string

record router_frame =
  target_url :: string
  fr_change_title :: bool
  child_frames :: "(string \<times> router_id) list"
  child_frame_paths :: "string list"
  props_child_frame_paths :: "string list"
  content :: "element list"
  included_path_masks :: "string list"
  excluded_path_masks :: "string list"

record router =
  router_config :: router_config
  base_path :: string
  user_data :: "kwargs option"
  child_routers :: "(string \<times> router_id) list"
  use_browser_history :: bool
  change_title :: bool
  parent_router :: "router_id option"
  router_frame :: router_frame
  cb_on_navigate :: "hook_id option"
  cb_on_resolve :: "hook_id option"
  cb_on_open :: "hook_id option"

datatype slot = FrameSlot router_id | OtherSlot

text \<open>
  The two scripts the router sends to the browser:
  \<^verbatim>\<open>window.history.pushState({page: "<url>"}, "", "<url>");\<close> is \<open>PushState url\<close> and
  \<^verbatim>\<open>window.location.href = "#<fragment>";\<close> is \<open>GotoFragment fragment\<close>. One call of
  \<^verbatim>\<open>ui.run_javascript\<close> sends the statements collected in \<^verbatim>\<open>js_code\<close>.
\<close>

datatype js_stmt = PushState string | GotoFragment string

datatype ui_event = RunJavascript "js_stmt list" | PageTitle string

datatype build_task = BuildTask router_id builder kwargs "string option"

datatype hook_level = RouterLevel | PathLevel | ConfigLevel

text \<open>
  Every invocation of a hook or of the config's resolver is recorded, with what went in
  and what came out, in the order of the calls.
\<close>

datatype call =
    OnNavigate router_id hook_id string "string option"
  | HandleNavigate router_id string "string option"
  | OnResolve router_id hook_id nav_target "target option"
  | ConfigResolve router_id string
  | OnOpen hook_level hook_id target target

record world =
  routers :: "router_id \<Rightarrow> router"
  slot_stack :: "slot list"
  ui_log :: "ui_event list"
  calls :: "call list"
  tasks :: "build_task list"

text \<open>
  The collaborators. \<open>fnmatch name pattern\<close> is \<^verbatim>\<open>fnmatch.fnmatch\<close>;
  \<open>open_hook h args kw\<close> is the call \<^verbatim>\<open>h(*args, **kw)\<close> of an \<^verbatim>\<open>on_open\<close> callback;
  \<open>config_resolve_target\<close> and \<open>config_handle_navigate\<close> are the methods of
  \<^verbatim>\<open>SinglePageRouterConfig\<close>; \<open>builder_params\<close> is
  \<^verbatim>\<open>inspect.signature(builder).parameters.keys()\<close> and \<open>builder_run\<close> the call of a
  builder, which may change anything in the world.
  \<open>run_safe_call h args kw\<close> is the statement \<^verbatim>\<open>RouterFrame.run_safe(h, *args, **kw)\<close>
  of lines 191 and 200, which runs an update callback of a Target. What is proved about
  the content swap holds whatever this statement does; with the class of
  \<^verbatim>\<open>router_frame.py\<close> it raises \<^verbatim>\<open>AttributeError\<close>, which is its value in
  \<open>demo_env\<close> below.
\<close>

record env =
  fnmatch :: "string \<Rightarrow> string \<Rightarrow> bool"
  app_title :: string
  nav_hook :: "hook_id \<Rightarrow> string \<Rightarrow> error + string option"
  resolve_hook :: "hook_id \<Rightarrow> nav_target \<Rightarrow> error + target option"
  open_hook :: "hook_id \<Rightarrow> pyval list \<Rightarrow> kwargs \<Rightarrow> error + target"
  config_resolve_target :: "router_config \<Rightarrow> string \<Rightarrow> error + target option"
  config_handle_navigate :: "router_config \<Rightarrow> string \<Rightarrow> error + string option"
  builder_params :: "nat \<Rightarrow> string list"
  builder_run :: "nat \<Rightarrow> kwargs \<Rightarrow> world \<Rightarrow> error + world"
  run_safe_call :: "hook_id \<Rightarrow> kwargs list \<Rightarrow> kwargs \<Rightarrow> world \<Rightarrow> error + world"

section \<open>Dictionaries\<close>

text \<open>
  \<^verbatim>\<open>d[k] = v\<close> is \<open>AList.update k v d\<close>: the value is replaced in place when the key is
  there and appended otherwise. \<^verbatim>\<open>d | e\<close> (and \<^verbatim>\<open>{**d, **e}\<close>, \<^verbatim>\<open>d.update(e)\<close>) stores
  the entries of \<open>e\<close> into \<open>d\<close> one after the other.
\<close>

definition dict_merge :: "('k \<times> 'v) list \<Rightarrow> ('k \<times> 'v) list \<Rightarrow> ('k \<times> 'v) list" where
  "dict_merge d e = foldl (\<lambda>acc (k, v). AList.update k v acc) d e"

definition str_items :: "(string \<times> string) list \<Rightarrow> kwargs" where
  "str_items d = map (\<lambda>(k, v). (k, VStr v)) d"

definition log_call :: "call \<Rightarrow> world \<Rightarrow> world" where
  "log_call c w = w\<lparr>calls := calls w @ [c]\<rparr>"

definition log_ui :: "ui_event \<Rightarrow> world \<Rightarrow> world" where
  "log_ui e w = w\<lparr>ui_log := ui_log w @ [e]\<rparr>"

section \<open>Resolving a target\<close>

datatype outcome = Restart target | Continue target

text \<open>
  Lines 102 to 105 of \<^verbatim>\<open>resolve_target\<close>: the router's own \<^verbatim>\<open>on_resolve\<close>
  callback is tried first.
\<close>

definition try_on_resolve ::
  "env \<Rightarrow> router_id \<Rightarrow> router \<Rightarrow> nav_target \<Rightarrow> world \<Rightarrow> error + (target option \<times> world)" where
  "try_on_resolve env rid r tgt w =
     (case cb_on_resolve r of
        None \<Rightarrow> Inr (None, w)
      | Some h \<Rightarrow>
          (case resolve_hook env h tgt of
             Inl e \<Rightarrow> Inl e
           | Inr resolved \<Rightarrow> Inr (resolved, log_call (OnResolve rid h tgt resolved) w)))"

text \<open>
  The attribute \<^verbatim>\<open>RouterFrame.run_safe\<close>, read at line 116: \<^verbatim>\<open>router_frame.py\<close>
  defines no attribute of this name.
\<close>

definition RouterFrame_run_safe :: "error + (target \<Rightarrow> error + target)" where
  "RouterFrame_run_safe = Inl AttributeError"

text \<open>
  Lines 115 to 118: the router's \<^verbatim>\<open>on_open\<close> callback. In the call
  \<^verbatim>\<open>RouterFrame.run_safe(self._on_open(**user_data | {'target': target}))\<close> Python
  evaluates the callee \<^verbatim>\<open>RouterFrame.run_safe\<close> first, then the argument, that is the
  call of the callback with the keyword arguments \<^verbatim>\<open>user_data | {'target': target}\<close>.
  \<open>Restart\<close> stands for \<^verbatim>\<open>return self.resolve_target(target, user_data)\<close>.
\<close>

definition router_on_open ::
  "env \<Rightarrow> router \<Rightarrow> kwargs option \<Rightarrow> string \<Rightarrow> target \<Rightarrow> world \<Rightarrow> error + (outcome \<times> world)" where
  "router_on_open env r ud orig t w =
     (case cb_on_open r of
        None \<Rightarrow> Inr (Continue t, w)
      | Some h \<Rightarrow>
          (case RouterFrame_run_safe of
             Inl e \<Rightarrow> Inl e
           | Inr run_safe \<Rightarrow>
               (case ud of
                  None \<Rightarrow> Inl TypeError
                | Some u \<Rightarrow>
                    (case open_hook env h [] (dict_merge u [(''target'', VTarget t)]) of
                       Inl e \<Rightarrow> Inl e
                     | Inr t0 \<Rightarrow>
                         (case run_safe t0 of
                            Inl e \<Rightarrow> Inl e
                          | Inr t' \<Rightarrow>
                              Inr (if original_path t' \<noteq> orig then Restart t' else Continue t',
                                   log_call (OnOpen RouterLevel h t t') w))))))"

text \<open>
  Lines 119 to 123: the matched route entry's \<^verbatim>\<open>on_open\<close>, called as
  \<^verbatim>\<open>rp.on_open(target, **user_data)\<close>. The entry is read from the target as the first
  callback left it.
\<close>

definition path_on_open ::
  "env \<Rightarrow> kwargs option \<Rightarrow> string \<Rightarrow> target \<Rightarrow> world \<Rightarrow> error + (outcome \<times> world)" where
  "path_on_open env ud orig t w =
     (case router_path t of
        None \<Rightarrow> Inl AttributeError
      | Some rp \<Rightarrow>
          (case rp_on_open rp of
             None \<Rightarrow> Inr (Continue t, w)
           | Some h \<Rightarrow>
               (case ud of
                  None \<Rightarrow> Inl TypeError
                | Some u \<Rightarrow>
                    (case open_hook env h [VTarget t] u of
                       Inl e \<Rightarrow> Inl e
                     | Inr t' \<Rightarrow>
                         Inr (if original_path t' \<noteq> orig then Restart t' else Continue t',
                              log_call (OnOpen PathLevel h t t') w)))))"

text \<open>
  Lines 124 to 130: the loop over the config and its parent configs, each
  \<^verbatim>\<open>on_open\<close> called as \<^verbatim>\<open>config.on_open(target)\<close>.
\<close>

fun config_on_open ::
  "env \<Rightarrow> string \<Rightarrow> router_config option \<Rightarrow> target \<Rightarrow> world \<Rightarrow> error + (outcome \<times> world)" where
  "config_on_open env orig None t w = Inr (Continue t, w)"
| "config_on_open env orig (Some (RouterConfig n b oo p)) t w =
     (case oo of
        None \<Rightarrow> config_on_open env orig p t w
      | Some h \<Rightarrow>
          (case open_hook env h [VTarget t] [] of
             Inl e \<Rightarrow> Inl e
           | Inr t' \<Rightarrow>
               (if original_path t' \<noteq> orig
                then Inr (Restart t', log_call (OnOpen ConfigLevel h t t') w)
                else config_on_open env orig p t' (log_call (OnOpen ConfigLevel h t t') w))))"

definition run_on_open ::
  "env \<Rightarrow> router \<Rightarrow> kwargs option \<Rightarrow> string \<Rightarrow> target \<Rightarrow> world \<Rightarrow> error + (outcome \<times> world)" where
  "run_on_open env r ud orig t w =
     (case router_on_open env r ud orig t w of
        Inl e \<Rightarrow> Inl e
      | Inr (Restart t', w1) \<Rightarrow> Inr (Restart t', w1)
      | Inr (Continue t1, w1) \<Rightarrow>
          (case path_on_open env ud orig t1 w1 of
             Inl e \<Rightarrow> Inl e
           | Inr (Restart t', w2) \<Rightarrow> Inr (Restart t', w2)
           | Inr (Continue t2, w2) \<Rightarrow> config_on_open env orig (Some (router_config r)) t2 w2))"

text \<open>
  \<^verbatim>\<open>SinglePageRouter.resolve_target\<close>. The config's resolver returning \<^verbatim>\<open>None\<close> fails
  at \<^verbatim>\<open>target.valid\<close> on line 109, before the test of line 111 is reached.
\<close>

function resolve_target ::
  "env \<Rightarrow> router_id \<Rightarrow> nav_target \<Rightarrow> kwargs option \<Rightarrow> world \<Rightarrow> error + (target \<times> world)" where
  "resolve_target env rid tgt ud w =
     (case try_on_resolve env rid (routers w rid) tgt w of
        Inl e \<Rightarrow> Inl e
      | Inr (Some resolved, w1) \<Rightarrow> Inr (resolved, w1)
      | Inr (None, w1) \<Rightarrow>
          (case tgt of
             Tgt t \<Rightarrow> Inr (t, w1)
           | Url s \<Rightarrow>
               (case config_resolve_target env (router_config (routers w rid)) s of
                  Inl e \<Rightarrow> Inl e
                | Inr None \<Rightarrow> Inl AttributeError
                | Inr (Some t0) \<Rightarrow>
                    (let t1 = (if valid t0 \<and> router t0 = None then t0\<lparr>router := Some rid\<rparr> else t0);
                         w2 = log_call (ConfigResolve rid s) w1
                     in case router_path t1 of
                          None \<Rightarrow> Inr (t1, w2)
                        | Some rp \<Rightarrow>
                            (case run_on_open env (routers w rid) ud (original_path t1) t1 w2 of
                               Inl e \<Rightarrow> Inl e
                             | Inr (Restart t', w3) \<Rightarrow> resolve_target env rid (Tgt t') ud w3
                             | Inr (Continue t', w3) \<Rightarrow> Inr (t', w3))))))"
  by pat_completeness auto
termination
  by (relation "measure (\<lambda>(env, rid, tgt, ud, w). case tgt of Url s \<Rightarrow> Suc 0 | Tgt t \<Rightarrow> 0)") auto


declare resolve_target.simps [simp del]

section \<open>Navigation\<close>

text \<open>
  \<^verbatim>\<open>SinglePageRouter.handle_navigate\<close>: the router's \<^verbatim>\<open>on_navigate\<close> callback, then the
  config's \<^verbatim>\<open>handle_navigate\<close>.
\<close>

definition handle_navigate ::
  "env \<Rightarrow> router_id \<Rightarrow> string \<Rightarrow> world \<Rightarrow> error + (string option \<times> world)" where
  "handle_navigate env rid tg w =
     (case (case cb_on_navigate (routers w rid) of
              None \<Rightarrow> Inr (Some tg, w)
            | Some h \<Rightarrow>
                (case nav_hook env h tg of
                   Inl e \<Rightarrow> Inl e
                 | Inr res \<Rightarrow> Inr (res, log_call (OnNavigate rid h tg res) w))) of
        Inl e \<Rightarrow> Inl e
      | Inr (None, w1) \<Rightarrow> Inr (None, w1)
      | Inr (Some tg1, w1) \<Rightarrow>
          (case config_handle_navigate env (router_config (routers w rid)) tg1 of
             Inl e \<Rightarrow> Inl e
           | Inr new_target \<Rightarrow>
               (if new_target = None \<or> new_target \<noteq> Some tg1
                then Inr (new_target, log_call (HandleNavigate rid tg1 new_target) w1)
                else Inr (Some tg1, log_call (HandleNavigate rid tg1 new_target) w1))))"

text \<open>
  The attribute \<^verbatim>\<open>user_data\<close> of a frame, read at lines 168 and 240:
  \<^verbatim>\<open>RouterFrame\<close> has no attribute of this name, neither set in its constructor nor
  declared in the class.
\<close>

definition frame_user_data :: "router_frame \<Rightarrow> error + kwargs" where
  "frame_user_data fr = Inl AttributeError"

text \<open>
  \<^verbatim>\<open>SinglePageRouter.get_user_data\<close>: the user data of the routers whose frames are on
  the slot stack, outermost first. A frame's router is \<^verbatim>\<open>user_data['router']\<close> of the
  frame.
\<close>

fun get_user_data_from :: "world \<Rightarrow> slot list \<Rightarrow> kwargs \<Rightarrow> error + kwargs" where
  "get_user_data_from w [] result_dict = Inr result_dict"
| "get_user_data_from w (OtherSlot # ss) result_dict = get_user_data_from w ss result_dict"
| "get_user_data_from w (FrameSlot f # ss) result_dict =
     (case frame_user_data (router_frame (routers w f)) of
        Inl e \<Rightarrow> Inl e
      | Inr fud \<Rightarrow>
          (case map_of fud ''router'' of
             None \<Rightarrow> Inl KeyError
           | Some (VRouter r) \<Rightarrow>
               (case user_data (routers w r) of
                  None \<Rightarrow> Inl TypeError
                | Some u \<Rightarrow> get_user_data_from w ss (dict_merge result_dict u))
           | Some other \<Rightarrow> Inl AttributeError))"

definition get_user_data :: "world \<Rightarrow> error + kwargs" where
  "get_user_data w = get_user_data_from w (slot_stack w) []"

definition map_router :: "router_id \<Rightarrow> (router \<Rightarrow> router) \<Rightarrow> world \<Rightarrow> world" where
  "map_router rid f w = w\<lparr>routers := (routers w)(rid := f (routers w rid))\<rparr>"

definition map_frame :: "router_id \<Rightarrow> (router_frame \<Rightarrow> router_frame) \<Rightarrow> world \<Rightarrow> world" where
  "map_frame rid g w = map_router rid (\<lambda>r. r\<lparr>router_frame := g (router_frame r)\<rparr>) w"

definition PATH_RESOLVING_MAX_RECURSION :: nat where
  "PATH_RESOLVING_MAX_RECURSION = 100"

text \<open>
  The assignment \<^verbatim>\<open>frame.target_url = url\<close> of line 273. \<^verbatim>\<open>RouterFrame.target_url\<close>
  is a property with a getter only (lines 67 to 70 of \<^verbatim>\<open>router_frame.py\<close>), so the
  assignment raises \<^verbatim>\<open>AttributeError\<close>. The frame itself records its URL by
  \<^verbatim>\<open>self._props['target_url'] = ...\<close> (line 117 of \<^verbatim>\<open>router_frame.py\<close>).
\<close>

definition frame_set_target_url :: "string \<Rightarrow> router_frame \<Rightarrow> error + router_frame" where
  "frame_set_target_url url fr = Inl AttributeError"

text \<open>
  \<^verbatim>\<open>SinglePageRouter._update_target_url\<close>. The first argument of the loop is the number
  of iterations \<^verbatim>\<open>range\<close> has left; when none is left the \<^verbatim>\<open>for\<close> statement ends and
  the method returns. The method has no \<^verbatim>\<open>raise\<close>.
\<close>

fun update_target_url_loop :: "nat \<Rightarrow> router_id \<Rightarrow> string \<Rightarrow> world \<Rightarrow> error + world" where
  "update_target_url_loop 0 cur_router url w = Inr w"
| "update_target_url_loop (Suc n) cur_router url w =
     (case frame_set_target_url url (router_frame (routers w cur_router)) of
        Inl e \<Rightarrow> Inl e
      | Inr fr \<Rightarrow>
          (let w' = map_frame cur_router (\<lambda>f. fr) w
           in case parent_router (routers w' cur_router) of
                None \<Rightarrow> Inr w'
              | Some p \<Rightarrow> update_target_url_loop n p url w'))"

definition update_target_url :: "router_id \<Rightarrow> string \<Rightarrow> world \<Rightarrow> error + world" where
  "update_target_url rid url w = update_target_url_loop PATH_RESOLVING_MAX_RECURSION rid url w"

text \<open>\<^verbatim>\<open>RouterFrame.clear\<close> and \<^verbatim>\<open>SinglePageRouter.clear\<close>.\<close>

definition frame_clear :: "router_id \<Rightarrow> world \<Rightarrow> world" where
  "frame_clear rid w =
     map_frame rid (\<lambda>f. f\<lparr>child_frames := [], props_child_frame_paths := [], content := []\<rparr>) w"

definition router_clear :: "router_id \<Rightarrow> world \<Rightarrow> world" where
  "router_clear rid w = frame_clear rid (map_router rid (\<lambda>r. r\<lparr>child_routers := []\<rparr>) w)"

section \<open>The content swap of the frame\<close>

text \<open>
  \<^verbatim>\<open>with self:\<close> pushes the frame's slot and pops it at the end; \<^verbatim>\<open>ui.label\<close> adds an
  element to the element of the innermost slot.
\<close>

definition enter :: "router_id \<Rightarrow> world \<Rightarrow> world" where
  "enter rid w = w\<lparr>slot_stack := slot_stack w @ [FrameSlot rid]\<rparr>"

definition leave :: "world \<Rightarrow> world" where
  "leave w = w\<lparr>slot_stack := butlast (slot_stack w)\<rparr>"

definition add_element :: "element \<Rightarrow> world \<Rightarrow> error + world" where
  "add_element el w =
     (if slot_stack w = [] then Inl RuntimeError
      else (case last (slot_stack w) of
              FrameSlot f \<Rightarrow> Inr (map_frame f (\<lambda>fr. fr\<lparr>content := content fr @ [el]\<rparr>) w)
            | OtherSlot \<Rightarrow> Inr w))"

text \<open>
  \<^verbatim>\<open>SinglePageRouter._page_not_found\<close>; the two emoji of the labels are written as their
  UTF-8 bytes.
\<close>

definition page_not_found :: "world \<Rightarrow> error + world" where
  "page_not_found w =
     (case add_element
             (Label (''Oops! Page Not Found '' @ [CHR 0xF0, CHR 0x9F, CHR 0x9A, CHR 0xA7]) ''text-3xl'') w of
        Inl e \<Rightarrow> Inl e
      | Inr w1 \<Rightarrow>
          add_element
            (Label (''Sorry, the page you are looking for could not be found. '' @
                    [CHR 0xF0, CHR 0x9F, CHR 0x98, CHR 0x94]) []) w1)"

definition params :: "env \<Rightarrow> builder \<Rightarrow> string list" where
  "params env b = (case b of PageNotFound \<Rightarrow> [] | Builder i \<Rightarrow> builder_params env i)"

text \<open>The call \<^verbatim>\<open>builder(**kwargs)\<close>.\<close>

definition call_builder :: "env \<Rightarrow> builder \<Rightarrow> kwargs \<Rightarrow> world \<Rightarrow> error + world" where
  "call_builder env b kw w =
     (case b of
        PageNotFound \<Rightarrow> (if kw = [] then page_not_found w else Inl TypeError)
      | Builder i \<Rightarrow> builder_run env i kw w)"

text \<open>\<^verbatim>\<open>exec_builder\<close> of \<^verbatim>\<open>RouterFrame.update_content\<close>, lines 134 to 138.\<close>

definition exec_builder :: "env \<Rightarrow> builder \<Rightarrow> kwargs \<Rightarrow> world \<Rightarrow> error + world" where
  "exec_builder env b builder_kwargs w =
     (let args = params env b;
          kw = filter (\<lambda>(k, v). k \<in> set args) builder_kwargs
      in call_builder env b kw w)"

text \<open>
  The coroutine \<^verbatim>\<open>build\<close> of lines 140 to 146, which
  \<^verbatim>\<open>background_tasks.create\<close> runs later: a task holds what the coroutine closes over.
\<close>

definition build :: "env \<Rightarrow> build_task \<Rightarrow> world \<Rightarrow> error + world" where
  "build env task w =
     (case task of
        BuildTask rid b builder_kwargs target_fragment \<Rightarrow>
          (case exec_builder env b builder_kwargs (enter rid w) of
             Inl e \<Rightarrow> Inl e
           | Inr w1 \<Rightarrow>
               Inr (leave (case target_fragment of
                             None \<Rightarrow> w1
                           | Some f \<Rightarrow> log_ui (RunJavascript [GotoFragment f]) w1))))"

text \<open>\<^verbatim>\<open>title if title is not None else core.app.config.title\<close>\<close>

definition title_or_default :: "env \<Rightarrow> string option \<Rightarrow> string" where
  "title_or_default env ttl = (case ttl of Some s \<Rightarrow> s | None \<Rightarrow> app_title env)"

text \<open>\<^verbatim>\<open>RouterFrame.update_content\<close>.\<close>

definition update_content ::
  "env \<Rightarrow> router_id \<Rightarrow> builder \<Rightarrow> kwargs \<Rightarrow> string option \<Rightarrow> string option \<Rightarrow> bool \<Rightarrow> world \<Rightarrow>
     error + world" where
  "update_content env rid b builder_kwargs ttl target_fragment sync w =
     (let w1 = (if fr_change_title (router_frame (routers w rid))
                then log_ui (PageTitle (title_or_default env ttl)) w
                else w);
          w2 = frame_clear rid w1
      in if sync
         then (case exec_builder env b builder_kwargs (enter rid w2) of
                 Inl e \<Rightarrow> Inl e
               | Inr w3 \<Rightarrow>
                   Inr (leave (case target_fragment of
                                 None \<Rightarrow> w3
                               | Some f \<Rightarrow> log_ui (RunJavascript [GotoFragment f]) w3)))
         else Inr (w2\<lparr>tasks := tasks w2 @ [BuildTask rid b builder_kwargs target_fragment]\<rparr>))"

section \<open>\<^verbatim>\<open>navigate_to\<close>\<close>

text \<open>
  Modelled from the spec: the class \<^verbatim>\<open>SinglePageTarget\<close> is not among the files, so the
  attributes that \<^verbatim>\<open>SinglePageTarget(builder=..., title=...)\<close> does not pass are taken
  empty; the not-found Target is a valid Target.
\<close>

definition SinglePageTarget_init :: "builder option \<Rightarrow> string option \<Rightarrow> target" where
  "SinglePageTarget_init b ttl =
     \<lparr>original_path = [], valid = True, router_path = None, builder = b, title = ttl,
      path_args = [], query_args = [], fragment = None, router = None,
      on_pre_update = None, on_post_update = None\<rparr>"

definition not_found_target :: target where
  "not_found_target = SinglePageTarget_init (Some PageNotFound) (Some ''Page not found'')"

text \<open>
  Line 188: \<^verbatim>\<open>{**target.path_args, **target.query_args, 'target': target} | handler_kwargs\<close>
\<close>

definition merge_handler_kwargs :: "target \<Rightarrow> kwargs \<Rightarrow> kwargs" where
  "merge_handler_kwargs t hk =
     dict_merge
       (dict_merge
          (dict_merge (dict_merge [] (str_items (path_args t))) (str_items (query_args t)))
          [(''target'', VTarget t)])
       hk"

text \<open>
  Lines 186 to 200. \<open>b\<close> is \<^verbatim>\<open>target.builder\<close>, which is not \<^verbatim>\<open>None\<close> from line 186 on.
\<close>

definition swap_content ::
  "env \<Rightarrow> router_id \<Rightarrow> target \<Rightarrow> builder \<Rightarrow> js_stmt list \<Rightarrow> kwargs \<Rightarrow> bool \<Rightarrow> world \<Rightarrow> error + world" where
  "swap_content env rid t b js_code hk sync w =
     (let w1 = (if js_code \<noteq> [] then log_ui (RunJavascript js_code) w else w);
          handler_kwargs = merge_handler_kwargs t hk
      in case (case on_pre_update t of
                 None \<Rightarrow> Inr w1
               | Some h \<Rightarrow> run_safe_call env h [] handler_kwargs w1) of
           Inl e \<Rightarrow> Inl e
         | Inr w2 \<Rightarrow>
             (case update_content env rid b handler_kwargs (title t) (fragment t) sync
                     (router_clear rid w2) of
                Inl e \<Rightarrow> Inl e
              | Inr w3 \<Rightarrow>
                  (let w4 = (if change_title (routers w3 rid) \<and> child_routers (routers w3 rid) = []
                             then log_ui (PageTitle (title_or_default env (title t))) w3
                             else w3)
                   in case on_post_update t of
                        None \<Rightarrow> Inr w4
                      | Some h \<Rightarrow> run_safe_call env h [handler_kwargs] [] w4)))"

text \<open>
  Lines 168 to 171: the keyword arguments of the handlers are put together and the
  target is resolved with them. The operands of line 168 are evaluated from left to
  right: \<^verbatim>\<open>get_user_data()\<close>, then \<^verbatim>\<open>self.user_data\<close> (merging \<^verbatim>\<open>None\<close> into a
  dictionary is a \<^verbatim>\<open>TypeError\<close>), then \<^verbatim>\<open>self.router_frame.user_data\<close>.
\<close>

definition resolve_for_navigation ::
  "env \<Rightarrow> router_id \<Rightarrow> nav_target \<Rightarrow> world \<Rightarrow> error + (target \<times> kwargs \<times> world)" where
  "resolve_for_navigation env rid tgt w =
     (case get_user_data w of
        Inl e \<Rightarrow> Inl e
      | Inr gud \<Rightarrow>
          (case user_data (routers w rid) of
             None \<Rightarrow> Inl TypeError
           | Some ud \<Rightarrow>
               (case frame_user_data (router_frame (routers w rid)) of
                  Inl e \<Rightarrow> Inl e
                | Inr fud \<Rightarrow>
                    (let fr = router_frame (routers w rid);
                         hk0 = dict_merge (dict_merge (dict_merge gud ud) fud)
                                 [(''previous_url_path'', VStr (target_url fr))];
                         hk1 = AList.update ''url_path''
                                 (case tgt of Url s \<Rightarrow> VStr s | Tgt t \<Rightarrow> VStr (original_path t)) hk0
                     in case resolve_target env rid tgt (Some hk1) w of
                          Inl e \<Rightarrow> Inl e
                        | Inr (t, w1) \<Rightarrow> Inr (t, hk1, w1)))))"

text \<open>Lines 172 to 185, followed by the content swap.\<close>

definition finish_navigation ::
  "env \<Rightarrow> router_id \<Rightarrow> target \<Rightarrow> kwargs \<Rightarrow> bool \<Rightarrow> bool \<Rightarrow> world \<Rightarrow> error + world" where
  "finish_navigation env rid t hk1 sync history w1 =
     (if \<not> valid t then Inr w1
      else
        (let url = original_path t;
             hk2 = AList.update ''target_url'' (VStr url) hk1
         in case update_target_url rid url w1 of
              Inl e \<Rightarrow> Inl e
            | Inr w2 \<Rightarrow>
                (let js_code =
                       (if history \<and> use_browser_history (routers w2 rid)
                        then [PushState url] else [])
                 in case builder t of
                      None \<Rightarrow>
                        (case fragment t of
                           Some f \<Rightarrow>
                             Inr (log_ui (RunJavascript (js_code @ [GotoFragment f])) w2)
                         | None \<Rightarrow>
                             swap_content env rid not_found_target PageNotFound js_code hk2
                               sync w2)
                    | Some b \<Rightarrow> swap_content env rid t b js_code hk2 sync w2)))"

text \<open>Lines 168 to 200 of \<^verbatim>\<open>navigate_to\<close>.\<close>

definition navigate_resolved ::
  "env \<Rightarrow> router_id \<Rightarrow> nav_target \<Rightarrow> bool \<Rightarrow> bool \<Rightarrow> world \<Rightarrow> error + world" where
  "navigate_resolved env rid tgt sync history w =
     (case resolve_for_navigation env rid tgt w of
        Inl e \<Rightarrow> Inl e
      | Inr (t, hk1, w1) \<Rightarrow> finish_navigation env rid t hk1 sync history w1)"

text \<open>
  \<^verbatim>\<open>str.rstrip\<close> with one character, and the test of line 162 for one entry of
  \<^verbatim>\<open>child_routers\<close>.
\<close>

definition rstrip :: "char \<Rightarrow> string \<Rightarrow> string" where
  "rstrip c s = rev (dropWhile (\<lambda>x. x = c) (rev s))"

definition matches_child :: "env \<Rightarrow> string \<Rightarrow> string \<Rightarrow> bool" where
  "matches_child env tg path_mask =
     (fnmatch env tg path_mask \<or> fnmatch env tg (rstrip CHR ''/'' path_mask @ ''/*''))"

definition find_child :: "env \<Rightarrow> string \<Rightarrow> (string \<times> router_id) list \<Rightarrow> (string \<times> router_id) option" where
  "find_child env tg children = find (\<lambda>(path_mask, frame). matches_child env tg path_mask) children"

text \<open>
  \<^verbatim>\<open>SinglePageRouter.navigate_to\<close>. A child router navigates with its own defaults
  \<^verbatim>\<open>sync=False\<close> and \<^verbatim>\<open>history=True\<close>. The chain of child routers need not end, so
  the function is partial: \<open>None\<close> is a call that does not return.
\<close>

partial_function (option) navigate_to ::
  "env \<Rightarrow> router_id \<Rightarrow> nav_target \<Rightarrow> bool \<Rightarrow> bool \<Rightarrow> bool \<Rightarrow> world \<Rightarrow> (error + world) option" where
  "navigate_to env rid tgt server_side sync history w =
     (case tgt of
        Url s \<Rightarrow>
          (case find_child env s (child_routers (routers w rid)) of
             Some (path_mask, frame) \<Rightarrow> navigate_to env frame (Url s) server_side False True w
           | None \<Rightarrow>
               (case handle_navigate env rid s w of
                  Inl e \<Rightarrow> Some (Inl e)
                | Inr (None, w1) \<Rightarrow> Some (Inr w1)
                | Inr (Some s', w1) \<Rightarrow> Some (navigate_resolved env rid (Url s') sync history w1)))
      | Tgt t \<Rightarrow> Some (navigate_resolved env rid (Tgt t) sync history w))"

section \<open>Constructing a router\<close>

text \<open>\<^verbatim>\<open>str.split\<close> and \<^verbatim>\<open>str.join\<close> with a separator of one character.\<close>

fun split_on :: "char \<Rightarrow> string \<Rightarrow> string list" where
  "split_on c [] = [[]]"
| "split_on c (x # xs) =
     (if x = c then [] # split_on c xs
      else (case split_on c xs of [] \<Rightarrow> [[x]] | y # ys \<Rightarrow> (x # y) # ys))"

fun join :: "string \<Rightarrow> string list \<Rightarrow> string" where
  "join sep [] = []"
| "join sep [x] = x"
| "join sep (x # y # ys) = x @ sep @ join sep (y # ys)"

text \<open>\<^verbatim>\<open>element.startswith("{") and element.endswith("}")\<close>\<close>

definition is_param :: "string \<Rightarrow> bool" where
  "is_param element = (element \<noteq> [] \<and> hd element = CHR ''{'' \<and> last element = CHR ''}'')"

text \<open>Lines 61 to 64: the loop over \<^verbatim>\<open>enumerate(base_path_elements)\<close>.\<close>

definition resolve_base_path_elements :: "string list \<Rightarrow> string list \<Rightarrow> string list" where
  "resolve_base_path_elements base_path_elements target_url_elements =
     map (\<lambda>(i, element).
            if is_param element \<and> i < length target_url_elements then target_url_elements ! i
            else element)
       (enumerate 0 base_path_elements)"

text \<open>Lines 68 to 73: one included path.\<close>

definition resolve_included_path :: "string list \<Rightarrow> string \<Rightarrow> string" where
  "resolve_included_path base_path_elements path =
     join ''/''
       (map (\<lambda>(j, element).
               if element = ''*'' \<and> j < length base_path_elements then base_path_elements ! j
               else element)
          (enumerate 0 (split_on CHR ''/'' path)))"

text \<open>\<^verbatim>\<open>SinglePageRouter._register_child_router\<close>\<close>

definition register_child_router :: "router_id \<Rightarrow> string \<Rightarrow> router_id \<Rightarrow> world \<Rightarrow> world" where
  "register_child_router rid path frame w =
     map_router rid
       (\<lambda>r. let cs = AList.update path frame (child_routers r)
            in r\<lparr>child_routers := cs,
                 router_frame := (router_frame r)\<lparr>child_frame_paths := map fst cs\<rparr>\<rparr>) w"

text \<open>Lines 35 to 46 of \<^verbatim>\<open>RouterFrame.__init__\<close>: the masks of a list of paths.\<close>

definition path_masks :: "string list option \<Rightarrow> string list" where
  "path_masks paths =
     (case paths of
        None \<Rightarrow> []
      | Some ps \<Rightarrow> concat (map (\<lambda>path. [rstrip CHR ''/'' path, rstrip CHR ''/'' path @ ''/*'']) ps))"

text \<open>
  The parameters of \<^verbatim>\<open>RouterFrame.__init__\<close> after \<^verbatim>\<open>self\<close> (lines 17 to 24 of
  \<^verbatim>\<open>router_frame.py\<close>); \<^verbatim>\<open>router\<close> is the only one without a default value.
\<close>

definition RouterFrame_init_params :: "string list" where
  "RouterFrame_init_params =
     [''router'', ''included_paths'', ''excluded_paths'', ''use_browser_history'',
      ''change_title'', ''parent_router_frame'', ''target_url'']"

text \<open>
  A call of the constructor \<^verbatim>\<open>RouterFrame(...)\<close> with keyword arguments only, whose
  names are \<open>keywords\<close>: a keyword that names no parameter, or no value for
  \<^verbatim>\<open>router\<close>, is a \<^verbatim>\<open>TypeError\<close>. Otherwise the frame is built with the masks of
  lines 35 to 46, the URL it is given and the default title flag.
\<close>

definition RouterFrame_init ::
  "string list \<Rightarrow> string list option \<Rightarrow> string list option \<Rightarrow> string \<Rightarrow> error + router_frame" where
  "RouterFrame_init keywords included_paths excluded_paths url =
     (if list_all (\<lambda>k. k \<in> set RouterFrame_init_params) keywords
         \<and> ''router'' \<in> set keywords
      then Inr \<lparr>target_url = url,
                fr_change_title = True,
                child_frames = [],
                child_frame_paths = [],
                props_child_frame_paths = [],
                content = [],
                included_path_masks = path_masks included_paths,
                excluded_path_masks = path_masks excluded_paths\<rparr>
      else Inl TypeError)"

text \<open>
  Lines 47 to 51 of \<^verbatim>\<open>SinglePageRouter.__init__\<close>: the target URL is the one given, else
  the parent router's current one, else the config's base path.
\<close>

definition init_target_url :: "router_config \<Rightarrow> router_id option \<Rightarrow> string option \<Rightarrow> world \<Rightarrow> string" where
  "init_target_url config parent turl w =
     (case turl of
        Some u \<Rightarrow> u
      | None \<Rightarrow>
          (case parent of
             Some p \<Rightarrow> target_url (router_frame (routers w p))
           | None \<Rightarrow> cfg_base_path config))"

text \<open>
  \<^verbatim>\<open>SinglePageRouter.__init__\<close>; \<open>self\<close> is the address of the new router. Lines 57 to
  74 resolve the base path and the included paths, lines 75 and 76 register the router
  with its parent, and lines 77 to 83 call the constructor of the frame with the keywords
  \<^verbatim>\<open>base_path\<close>, \<^verbatim>\<open>target_url\<close>, \<^verbatim>\<open>included_paths\<close>, \<^verbatim>\<open>excluded_paths\<close>,
  \<^verbatim>\<open>use_browser_history\<close>, \<^verbatim>\<open>on_navigate\<close> and \<^verbatim>\<open>user_data\<close>.
\<close>

definition SinglePageRouter_init ::
  "router_config \<Rightarrow> string list option \<Rightarrow> string list option \<Rightarrow> bool \<Rightarrow> bool \<Rightarrow> router_id option \<Rightarrow>
     string option \<Rightarrow> kwargs option \<Rightarrow> router_id \<Rightarrow> world \<Rightarrow> error + world" where
  "SinglePageRouter_init config included_paths excluded_paths ubh ct parent turl ud self w =
     (let url = init_target_url config parent turl w;
          base_path_elements =
            resolve_base_path_elements (split_on CHR ''/'' (cfg_base_path config))
              (split_on CHR ''/'' url);
          included = map_option (map (resolve_included_path base_path_elements)) included_paths;
          registered =
            (case parent of
               None \<Rightarrow> Inr w
             | Some p \<Rightarrow>
                 (case included of
                    None \<Rightarrow> Inl TypeError
                  | Some [] \<Rightarrow> Inl IndexError
                  | Some (m # ms) \<Rightarrow> Inr (register_child_router p m self w)))
      in case registered of
           Inl e \<Rightarrow> Inl e
         | Inr w1 \<Rightarrow>
             (case RouterFrame_init
                     [''base_path'', ''target_url'', ''included_paths'', ''excluded_paths'',
                      ''use_browser_history'', ''on_navigate'', ''user_data'']
                     included excluded_paths url of
                Inl e \<Rightarrow> Inl e
              | Inr fr \<Rightarrow>
                  Inr (w1\<lparr>routers := (routers w1)(self :=
                         \<lparr>router_config = config,
                          base_path = join ''/'' base_path_elements,
                          user_data = ud,
                          child_routers = [],
                          use_browser_history = ubh,
                          change_title = ct,
                          parent_router = parent,
                          router_frame = fr,
                          cb_on_navigate = None,
                          cb_on_resolve = None,
                          cb_on_open = None\<rparr>)\<rparr>)))"

section \<open>Notions used in the statements\<close>

text \<open>
  A recorded \<^verbatim>\<open>on_open\<close> call rewrites the path when the Target it returned has another
  \<^verbatim>\<open>original_path\<close> than the Target it was given.
\<close>

definition rewrites_path :: "call \<Rightarrow> bool" where
  "rewrites_path c =
     (case c of OnOpen l h tin tout \<Rightarrow> original_path tout \<noteq> original_path tin | _ \<Rightarrow> False)"

definition is_on_open :: "call \<Rightarrow> bool" where
  "is_on_open c = (case c of OnOpen l h tin tout \<Rightarrow> True | _ \<Rightarrow> False)"

text \<open>
  What the calls recorded by a chain of \<^verbatim>\<open>on_open\<close> callbacks look like: a chain that
  runs to its end rewrote no path, and a chain that restarts ends with the call whose
  result is the restart's Target.
\<close>

definition chain_ok :: "string \<Rightarrow> outcome \<Rightarrow> call list \<Rightarrow> bool" where
  "chain_ok orig oc evs =
     (case oc of
        Continue t' \<Rightarrow> original_path t' = orig \<and> (\<forall>c\<in>set evs. \<not> rewrites_path c)
      | Restart t' \<Rightarrow>
          (\<exists>pre l h tin. evs = pre @ [OnOpen l h tin t'] \<and> (\<forall>c\<in>set pre. \<not> rewrites_path c)))"

section \<open>A small application\<close>

text \<open>
  A glob matcher for patterns made of literal characters, \<^verbatim>\<open>*\<close> and \<^verbatim>\<open>?\<close>, as
  \<^verbatim>\<open>fnmatch\<close> treats them; the first argument is the name, the second the pattern.
\<close>

fun glob :: "string \<Rightarrow> string \<Rightarrow> bool" where
  "glob [] [] = True"
| "glob (c # cs) [] = False"
| "glob [] (p # ps) = (p = CHR ''*'' \<and> glob [] ps)"
| "glob (c # cs) (p # ps) =
     (if p = CHR ''*'' then glob (c # cs) ps \<or> glob cs (p # ps)
      else (p = CHR ''?'' \<or> p = c) \<and> glob cs ps)"

definition demo_page :: "string \<Rightarrow> target" where
  "demo_page s =
     \<lparr>original_path = s, valid = True,
      router_path = Some \<lparr>rp_pattern = s, rp_on_open = None\<rparr>,
      builder = Some (Builder 0), title = Some ''Demo'',
      path_args = [], query_args = [], fragment = None, router = None,
      on_pre_update = None, on_post_update = None\<rparr>"

text \<open>
  The routes \<^verbatim>\<open>/\<close>, \<^verbatim>\<open>/old\<close>, \<^verbatim>\<open>/new\<close> and \<^verbatim>\<open>/admin\<close> are registered; the route
  entry of \<^verbatim>\<open>/old\<close> has an \<^verbatim>\<open>on_open\<close> callback, hook 1.
\<close>

definition demo_resolve :: "string \<Rightarrow> target" where
  "demo_resolve s =
     (if s = ''/old''
      then (demo_page s)\<lparr>router_path := Some \<lparr>rp_pattern = s, rp_on_open = Some 1\<rparr>\<rparr>
      else if s = ''/'' \<or> s = ''/new'' \<or> s = ''/admin'' then demo_page s
      else (demo_page s)\<lparr>router_path := None, builder := None, title := None\<rparr>)"

text \<open>
  The \<^verbatim>\<open>on_open\<close> callback of the route entry: it rewrites \<^verbatim>\<open>/old\<close> to \<^verbatim>\<open>/new\<close>.
\<close>

definition demo_redirect :: "target \<Rightarrow> target" where
  "demo_redirect t = (if original_path t = ''/old'' then t\<lparr>original_path := ''/new''\<rparr> else t)"

text \<open>
  Builder 0 renders a page. Builder 1 is the builder of an outlet: it mounts a nested
  router for \<^verbatim>\<open>/services\<close> under router 0, whose leaf view sets the title.
  The \<^verbatim>\<open>on_navigate\<close> callback vetoes \<^verbatim>\<open>/admin\<close>.
\<close>

definition demo_env :: env where
  "demo_env =
     \<lparr>fnmatch = glob,
      app_title = ''NiceCLOUD Portal'',
      nav_hook = (\<lambda>h s. if s = ''/admin'' then Inr None else Inr (Some s)),
      resolve_hook = (\<lambda>h tg. Inr None),
      open_hook = (\<lambda>h args kw.
         case args of
           [VTarget t] \<Rightarrow> Inr (demo_redirect t)
         | _ \<Rightarrow> Inl TypeError),
      config_resolve_target = (\<lambda>c s. Inr (Some (demo_resolve s))),
      config_handle_navigate = (\<lambda>c s. Inr (Some s)),
      builder_params = (\<lambda>i. [''url_path'']),
      builder_run = (\<lambda>i kw w.
         if i = 0 then add_element (Label ''page'' []) w
         else Inr (log_ui (PageTitle ''Leaf'') (register_child_router 0 ''/services'' 1 w))),
      run_safe_call = (\<lambda>h args kw w. Inl AttributeError)\<rparr>"

definition demo_router :: router where
  "demo_router =
     \<lparr>router_config = RouterConfig 0 ''/'' None None,
      base_path = ''/'',
      user_data = Some [],
      child_routers = [],
      use_browser_history = True,
      change_title = True,
      parent_router = None,
      router_frame =
        \<lparr>target_url = ''/'', fr_change_title = True,
         child_frames = [], child_frame_paths = [], props_child_frame_paths = [], content = [],
         included_path_masks = [], excluded_path_masks = []\<rparr>,
      cb_on_navigate = Some 0,
      cb_on_resolve = None,
      cb_on_open = None\<rparr>"

definition demo_world :: world where
  "demo_world = \<lparr>routers = (\<lambda>i. demo_router), slot_stack = [], ui_log = [], calls = [], tasks = []\<rparr>"

text \<open>Router 0 with a child router 1 registered for \<^verbatim>\<open>/services\<close>.\<close>

definition nested_world :: world where
  "nested_world =
     demo_world\<lparr>routers := (\<lambda>i. if i = 0 then demo_router\<lparr>child_routers := [(''/services'', 1)]\<rparr>
                                else demo_router\<lparr>parent_router := Some 0\<rparr>)\<rparr>"




section \<open>The calls recorded while a target is resolved\<close>

lemma chain_ok_single:
  "original_path t = orig \<Longrightarrow>
   chain_ok orig (if original_path t' \<noteq> orig then Restart t' else Continue t') [OnOpen l h t t']"
  by (simp add: chain_ok_def rewrites_path_def)

lemma chain_ok_append:
  assumes "chain_ok orig (Continue t) evs" and "chain_ok orig oc evs'"
  shows "chain_ok orig oc (evs @ evs')"
proof (cases oc)
  case (Continue t')
  with assms show ?thesis by (auto simp: chain_ok_def)
next
  case (Restart t')
  with assms(2) obtain pre l h tin
    where "evs' = pre @ [OnOpen l h tin t']" and "\<forall>c\<in>set pre. \<not> rewrites_path c"
    by (auto simp: chain_ok_def)
  with assms(1) have "evs @ evs' = (evs @ pre) @ [OnOpen l h tin t'] \<and>
      (\<forall>c\<in>set (evs @ pre). \<not> rewrites_path c)"
    by (auto simp: chain_ok_def)
  with Restart show ?thesis unfolding chain_ok_def by (simp only: outcome.case) blast
qed

lemma router_on_open_log:
  assumes "router_on_open env r ud orig t w = Inr (oc, w')" and "original_path t = orig"
  shows "\<exists>evs. w' = w\<lparr>calls := calls w @ evs\<rparr> \<and> chain_ok orig oc evs"
proof (cases "cb_on_open r")
  case None
  with assms have "w' = w\<lparr>calls := calls w @ []\<rparr> \<and> chain_ok orig oc []"
    by (auto simp: router_on_open_def chain_ok_def)
  then show ?thesis by blast
next
  case (Some h)
  with assms(1) show ?thesis by (simp add: router_on_open_def RouterFrame_run_safe_def)
qed

lemma router_on_open_raises:
  "cb_on_open r = Some h \<Longrightarrow> router_on_open env r ud orig t w = Inl AttributeError"
  by (simp add: router_on_open_def RouterFrame_run_safe_def)

lemma path_on_open_log:
  assumes "path_on_open env ud orig t w = Inr (oc, w')" and "original_path t = orig"
  shows "\<exists>evs. w' = w\<lparr>calls := calls w @ evs\<rparr> \<and> chain_ok orig oc evs"
proof -
  from assms obtain rp where rp: "router_path t = Some rp"
    by (auto simp: path_on_open_def split: option.splits)
  show ?thesis
  proof (cases "rp_on_open rp")
    case None
    with assms rp have "w' = w\<lparr>calls := calls w @ []\<rparr> \<and> chain_ok orig oc []"
      by (auto simp: path_on_open_def chain_ok_def)
    then show ?thesis by blast
  next
    case (Some h)
    with assms rp obtain t' where "oc = (if original_path t' \<noteq> orig then Restart t' else Continue t')"
      and "w' = w\<lparr>calls := calls w @ [OnOpen PathLevel h t t']\<rparr>"
      by (auto simp: path_on_open_def log_call_def split: option.splits sum.splits)
    with assms(2) show ?thesis using chain_ok_single by blast
  qed
qed

lemma config_on_open_log:
  "config_on_open env orig c t w = Inr (oc, w') \<Longrightarrow> original_path t = orig \<Longrightarrow>
     \<exists>evs. w' = w\<lparr>calls := calls w @ evs\<rparr> \<and> chain_ok orig oc evs"
proof (induction env orig c t w rule: config_on_open.induct)
  case (1 env orig t w)
  then have "w' = w\<lparr>calls := calls w @ []\<rparr> \<and> chain_ok orig oc []"
    by (auto simp: chain_ok_def)
  then show ?case by blast
next
  case (2 env orig n b oo p t w)
  show ?case
  proof (cases oo)
    case None
    with 2 show ?thesis by simp
  next
    case (Some h)
    with "2.prems" obtain t' where hk: "open_hook env h [VTarget t] [] = Inr t'"
      by (auto split: sum.splits)
    let ?w1 = "log_call (OnOpen ConfigLevel h t t') w"
    have w1: "?w1 = w\<lparr>calls := calls w @ [OnOpen ConfigLevel h t t']\<rparr>"
      by (simp add: log_call_def)
    show ?thesis
    proof (cases "original_path t' \<noteq> orig")
      case True
      with "2.prems" Some hk have "oc = Restart t'" "w' = ?w1" by auto
      with True "2.prems"(2) w1 chain_ok_single[of t orig t' ConfigLevel h] show ?thesis
        by auto
    next
      case False
      with "2.prems" Some hk have rec: "config_on_open env orig p t' ?w1 = Inr (oc, w')" by auto
      from False have "original_path t' = orig" by simp
      from "2.IH"(2)[OF Some hk _ rec this] False
      obtain evs where e: "w' = ?w1\<lparr>calls := calls ?w1 @ evs\<rparr>" "chain_ok orig oc evs" by auto
      have c1: "chain_ok orig (Continue t') [OnOpen ConfigLevel h t t']"
        using chain_ok_single[of t orig t' ConfigLevel h] False "2.prems"(2) by simp
      have "w' = w\<lparr>calls := calls w @ ([OnOpen ConfigLevel h t t'] @ evs)\<rparr>"
        using e(1) by (simp add: log_call_def)
      moreover have "chain_ok orig oc ([OnOpen ConfigLevel h t t'] @ evs)"
        using chain_ok_append[OF c1 e(2)] .
      ultimately show ?thesis by blast
    qed
  qed
qed

lemma run_on_open_log:
  assumes "run_on_open env r ud orig t w = Inr (oc, w')" and "original_path t = orig"
  shows "\<exists>evs. w' = w\<lparr>calls := calls w @ evs\<rparr> \<and> chain_ok orig oc evs"
proof -
  from assms(1) obtain o1 w1 where s1: "router_on_open env r ud orig t w = Inr (o1, w1)"
    by (auto simp: run_on_open_def split: sum.splits)
  from router_on_open_log[OF s1 assms(2)] obtain e1
    where e1: "w1 = w\<lparr>calls := calls w @ e1\<rparr>" "chain_ok orig o1 e1" by blast
  show ?thesis
  proof (cases o1)
    case (Restart t')
    with assms(1) s1 have "oc = o1" "w' = w1" by (auto simp: run_on_open_def)
    with e1 show ?thesis by blast
  next
    case (Continue t1)
    with assms(1) s1 obtain o2 w2 where s2: "path_on_open env ud orig t1 w1 = Inr (o2, w2)"
      by (auto simp: run_on_open_def split: sum.splits)
    from Continue e1(2) have p1: "original_path t1 = orig" by (simp add: chain_ok_def)
    from path_on_open_log[OF s2 p1] obtain e2
      where e2: "w2 = w1\<lparr>calls := calls w1 @ e2\<rparr>" "chain_ok orig o2 e2" by blast
    have c12: "chain_ok orig o2 (e1 @ e2)" using chain_ok_append e1(2) e2(2) Continue by blast
    have w2: "w2 = w\<lparr>calls := calls w @ (e1 @ e2)\<rparr>" using e1(1) e2(1) by simp
    show ?thesis
    proof (cases o2)
      case (Restart t')
      with assms(1) s1 s2 Continue have "oc = o2" "w' = w2" by (auto simp: run_on_open_def)
      with c12 w2 show ?thesis by blast
    next
      case C2: (Continue t2)
      with assms(1) s1 s2 Continue
      have s3: "config_on_open env orig (Some (router_config r)) t2 w2 = Inr (oc, w')"
        by (auto simp: run_on_open_def)
      from C2 e2(2) have p2: "original_path t2 = orig" by (simp add: chain_ok_def)
      from config_on_open_log[OF s3 p2] obtain e3
        where e3: "w' = w2\<lparr>calls := calls w2 @ e3\<rparr>" "chain_ok orig oc e3" by blast
      have "chain_ok orig oc ((e1 @ e2) @ e3)" using chain_ok_append c12 e3(2) C2 by blast
      moreover have "w' = w\<lparr>calls := calls w @ ((e1 @ e2) @ e3)\<rparr>" using w2 e3(1) by simp
      ultimately show ?thesis by blast
    qed
  qed
qed

lemma unique_rewrite:
  "xs @ e # ys = pre @ e' # post \<Longrightarrow> P e \<Longrightarrow> \<forall>c\<in>set pre. \<not> P c \<Longrightarrow> \<forall>c\<in>set post. \<not> P c \<Longrightarrow>
     xs = pre \<and> e = e' \<and> ys = post"
proof (induction xs arbitrary: pre)
  case Nil
  then show ?case by (cases pre) auto
next
  case (Cons x xs)
  then show ?case by (cases pre) auto
qed


lemma try_on_resolve_log:
  assumes "try_on_resolve env rid r tgt w = Inr (ro, w1)"
  shows "\<exists>e0. w1 = w\<lparr>calls := calls w @ e0\<rparr> \<and> (\<forall>c\<in>set e0. \<not> is_on_open c \<and> \<not> rewrites_path c) \<and>
           (cb_on_resolve r = None \<longrightarrow> e0 = [] \<and> ro = None)"
proof (cases "cb_on_resolve r")
  case None
  with assms have "w1 = w\<lparr>calls := calls w @ []\<rparr> \<and> ro = None"
    by (auto simp: try_on_resolve_def)
  with None show ?thesis by fastforce
next
  case (Some h)
  with assms have "w1 = w\<lparr>calls := calls w @ [OnResolve rid h tgt ro]\<rparr>"
    by (auto simp: try_on_resolve_def log_call_def split: sum.splits)
  moreover have "\<forall>c\<in>set [OnResolve rid h tgt ro]. \<not> is_on_open c \<and> \<not> rewrites_path c"
    by (simp add: is_on_open_def rewrites_path_def)
  ultimately have "w1 = w\<lparr>calls := calls w @ [OnResolve rid h tgt ro]\<rparr> \<and>
      (\<forall>c\<in>set [OnResolve rid h tgt ro]. \<not> is_on_open c \<and> \<not> rewrites_path c) \<and>
      (cb_on_resolve r = None \<longrightarrow> [OnResolve rid h tgt ro] = [] \<and> ro = None)"
    using Some by simp
  then show ?thesis by (rule exI)
qed

lemma resolve_target_Tgt:
  "resolve_target env rid (Tgt t) ud w =
     (case try_on_resolve env rid (routers w rid) (Tgt t) w of
        Inl e \<Rightarrow> Inl e
      | Inr (Some resolved, w1) \<Rightarrow> Inr (resolved, w1)
      | Inr (None, w1) \<Rightarrow> Inr (t, w1))"
  by (simp add: resolve_target.simps[of env rid "Tgt t"] split: sum.splits option.splits prod.splits)

lemma rewrites_in_set:
  "calls w' = calls w @ evs \<Longrightarrow> calls w' = calls w @ xs @ e # ys \<Longrightarrow> rewrites_path e \<Longrightarrow>
     \<exists>c\<in>set evs. rewrites_path c"
  by auto

lemma demo_resolve_old:
  "resolve_target demo_env 0 (Url ''/old'') (Some []) demo_world =
     Inr (demo_redirect ((demo_resolve ''/old'')\<lparr>router := Some 0\<rparr>),
          demo_world\<lparr>calls := calls demo_world @ [ConfigResolve 0 ''/old''] @
             OnOpen PathLevel 1 ((demo_resolve ''/old'')\<lparr>router := Some 0\<rparr>)
               (demo_redirect ((demo_resolve ''/old'')\<lparr>router := Some 0\<rparr>)) # []\<rparr>)"
  apply (subst resolve_target.simps)
  apply (simp add: try_on_resolve_def demo_world_def demo_router_def demo_env_def demo_resolve_def demo_page_def
      log_call_def run_on_open_def router_on_open_def path_on_open_def demo_redirect_def resolve_target.simps[of _ _ "Tgt t" for t])
  done

lemma demo_rel:
  "resolve_target_rel
     (demo_env, 0, Tgt (demo_redirect ((demo_resolve ''/old'')\<lparr>router := Some 0\<rparr>)), Some [],
      log_call (OnOpen PathLevel 1 ((demo_resolve ''/old'')\<lparr>router := Some 0\<rparr>)
                 (demo_redirect ((demo_resolve ''/old'')\<lparr>router := Some 0\<rparr>)))
        (log_call (ConfigResolve 0 ''/old'') demo_world))
     (demo_env, 0, Url ''/old'', Some [], demo_world)"
  apply (rule resolve_target_rel.intros[where b="(None, demo_world)" and x=None and y=demo_world
        and ?x1.0="''/old''" and ba="Some (demo_resolve ''/old'')" and ?x2.0="demo_resolve ''/old''"
        and xa="(demo_resolve ''/old'')\<lparr>router := Some 0\<rparr>" and xb="log_call (ConfigResolve 0 ''/old'') demo_world"
        and xc="Restart (demo_redirect ((demo_resolve ''/old'')\<lparr>router := Some 0\<rparr>))"])
             apply (simp_all add: try_on_resolve_def demo_world_def demo_router_def demo_env_def
      demo_resolve_def demo_page_def run_on_open_def router_on_open_def path_on_open_def demo_redirect_def)
  done

section \<open>Redirects by \<^verbatim>\<open>on_open\<close> callbacks\<close>

text \<open>
  Claim C1. Let \<^verbatim>\<open>resolve_target\<close>, called with a URL, return a Target, and let the calls
  it recorded contain an \<^verbatim>\<open>on_open\<close> call, at whatever level, whose result has another
  \<^verbatim>\<open>original_path\<close> than the Target that went in. (The calls that are recorded are
  those of the route entry's callback and of the callbacks of the config chain: with a
  callback of the router itself line 116 raises \<^verbatim>\<open>AttributeError\<close> before the callback is
  called, see \<open>router_on_open_raises\<close>.) Then the value returned is the value of \<^verbatim>\<open>resolve_target\<close> called again,
  from the top, on the Target that callback returned, in the world as it was right after
  that call; no \<^verbatim>\<open>on_open\<close> callback is called after it, so the rest of the chain does
  not run; and when the router has no \<^verbatim>\<open>on_resolve\<close> callback the Target returned is
  the one the callback produced, with the rewritten path, and nothing at all is called
  after it.
\<close>

theorem resolve_target_restart_on_rewrite:
  assumes res: "resolve_target env rid (Url s) ud w = Inr (t, w')"
      and lg: "calls w' = calls w @ xs @ OnOpen l h tin tout # ys"
      and rw: "original_path tout \<noteq> original_path tin"
  shows "resolve_target env rid (Tgt tout) ud (w\<lparr>calls := calls w @ xs @ [OnOpen l h tin tout]\<rparr>) = Inr (t, w')
       \<and> (\<forall>c\<in>set ys. \<not> is_on_open c)
       \<and> (cb_on_resolve (routers w rid) = None \<longrightarrow> t = tout \<and> ys = [])"
proof -
  let ?r = "routers w rid"
  let ?e = "OnOpen l h tin tout"
  have rwe: "rewrites_path ?e" using rw by (simp add: rewrites_path_def)
  note unf = resolve_target.simps[of env rid "Url s"]
  from res obtain ro w1 where tr: "try_on_resolve env rid ?r (Url s) w = Inr (ro, w1)"
    by (auto simp: unf split: sum.splits)
  from try_on_resolve_log[OF tr] obtain e0 where e0: "w1 = w\<lparr>calls := calls w @ e0\<rparr>"
    "\<forall>c\<in>set e0. \<not> is_on_open c \<and> \<not> rewrites_path c" by blast
  have ro: "ro = None"
  proof (rule ccontr)
    assume "ro \<noteq> None"
    then obtain x where "ro = Some x" by auto
    with res tr have "w' = w1" by (simp add: unf)
    with e0(1) have "calls w' = calls w @ e0" by simp
    from rewrites_in_set[OF this lg rwe] e0(2) show False by blast
  qed
  from res tr ro obtain t0 where cr: "config_resolve_target env (router_config ?r) s = Inr (Some t0)"
    by (auto simp: unf split: sum.splits option.splits)
  define t1 where "t1 = (if valid t0 \<and> router t0 = None then t0\<lparr>router := Some rid\<rparr> else t0)"
  define w2 where "w2 = log_call (ConfigResolve rid s) w1"
  have w2: "w2 = w\<lparr>calls := calls w @ (e0 @ [ConfigResolve rid s])\<rparr>"
    using e0(1) by (simp add: w2_def log_call_def)
  have q2: "\<forall>c\<in>set (e0 @ [ConfigResolve rid s]). \<not> rewrites_path c"
    using e0(2) by (auto simp: rewrites_path_def)
  have res2: "(case router_path t1 of
                 None \<Rightarrow> Inr (t1, w2)
               | Some rp \<Rightarrow>
                   (case run_on_open env ?r ud (original_path t1) t1 w2 of
                      Inl e \<Rightarrow> Inl e
                    | Inr (Restart t', w3) \<Rightarrow> resolve_target env rid (Tgt t') ud w3
                    | Inr (Continue t', w3) \<Rightarrow> Inr (t', w3))) = Inr (t, w')"
    unfolding t1_def w2_def using res tr ro cr
    by (simp only: unf sum.case prod.case option.case
        nav_target.case Let_def)
  have "router_path t1 \<noteq> None"
  proof
    assume "router_path t1 = None"
    with res2 have "w' = w2" by simp
    with w2 have "calls w' = calls w @ (e0 @ [ConfigResolve rid s])" by simp
    from rewrites_in_set[OF this lg rwe] q2 show False by blast
  qed
  then obtain rp where rp: "router_path t1 = Some rp" by auto
  with res2 obtain oc w3 where ch: "run_on_open env ?r ud (original_path t1) t1 w2 = Inr (oc, w3)"
    by (auto split: sum.splits)
  from run_on_open_log[OF ch refl] obtain evs
    where evs: "w3 = w2\<lparr>calls := calls w2 @ evs\<rparr>" "chain_ok (original_path t1) oc evs" by blast
  have w3: "w3 = w\<lparr>calls := calls w @ (e0 @ [ConfigResolve rid s] @ evs)\<rparr>"
    using evs(1) w2 by simp
  have "\<exists>t'. oc = Restart t'"
  proof (cases oc)
    case (Continue t')
    with res2 rp ch have "w' = w3" by simp
    with w3 have c: "calls w' = calls w @ (e0 @ [ConfigResolve rid s] @ evs)" by simp
    from Continue evs(2) have "\<forall>c\<in>set evs. \<not> rewrites_path c" by (simp add: chain_ok_def)
    with q2 have "\<forall>c\<in>set (e0 @ [ConfigResolve rid s] @ evs). \<not> rewrites_path c" by auto
    with rewrites_in_set[OF c lg rwe] show ?thesis by blast
  qed simp
  then obtain t' where oc: "oc = Restart t'" by blast
  with evs(2) obtain pre l' h' tin'
    where pre: "evs = pre @ [OnOpen l' h' tin' t']" "\<forall>c\<in>set pre. \<not> rewrites_path c"
    by (auto simp: chain_ok_def)
  from res2 rp ch oc have rec: "resolve_target env rid (Tgt t') ud w3 = Inr (t, w')" by simp
  have r3: "routers w3 rid = ?r" using w3 by simp
  from rec obtain ro' where tr': "try_on_resolve env rid ?r (Tgt t') w3 = Inr (ro', w')"
    by (auto simp: resolve_target_Tgt r3 split: sum.splits option.splits)
  from try_on_resolve_log[OF tr'] obtain e4 where e4: "w' = w3\<lparr>calls := calls w3 @ e4\<rparr>"
    "\<forall>c\<in>set e4. \<not> is_on_open c \<and> \<not> rewrites_path c"
    "cb_on_resolve ?r = None \<longrightarrow> e4 = [] \<and> ro' = None" by (elim exE conjE)
  have "calls w' = calls w @ ((e0 @ [ConfigResolve rid s] @ pre) @ OnOpen l' h' tin' t' # e4)"
    using e4(1) w3 pre(1) by simp
  with lg have "xs @ ?e # ys = (e0 @ [ConfigResolve rid s] @ pre) @ OnOpen l' h' tin' t' # e4"
    by simp
  from unique_rewrite[OF this, of rewrites_path] rwe q2 pre(2) e4(2)
  have eq: "xs = e0 @ [ConfigResolve rid s] @ pre" "?e = OnOpen l' h' tin' t'" "ys = e4"
    by auto
  have w3': "w3 = w\<lparr>calls := calls w @ xs @ [?e]\<rparr>" using w3 pre(1) eq by simp
  have "t = tout \<and> ys = []" if "cb_on_resolve ?r = None"
  proof -
    from that e4(3) have "e4 = []" "ro' = None" by auto
    with rec tr' eq show ?thesis by (simp add: resolve_target_Tgt r3)
  qed
  moreover have "t' = tout" using eq(2) by simp
  ultimately show ?thesis using rec w3' e4(2) eq(3) by auto
qed

theorem resolve_target_restart_on_rewrite_witness:
  "resolve_target demo_env 0 (Url ''/old'') (Some []) demo_world =
     Inr (demo_redirect ((demo_resolve ''/old'')\<lparr>router := Some 0\<rparr>),
          demo_world\<lparr>calls := calls demo_world @ [ConfigResolve 0 ''/old''] @
             OnOpen PathLevel 1 ((demo_resolve ''/old'')\<lparr>router := Some 0\<rparr>)
               (demo_redirect ((demo_resolve ''/old'')\<lparr>router := Some 0\<rparr>)) # []\<rparr>)
   \<and> original_path (demo_redirect ((demo_resolve ''/old'')\<lparr>router := Some 0\<rparr>)) = ''/new''
   \<and> original_path ((demo_resolve ''/old'')\<lparr>router := Some 0\<rparr>) = ''/old''
   \<and> resolve_target demo_env 0 (Tgt (demo_redirect ((demo_resolve ''/old'')\<lparr>router := Some 0\<rparr>))) (Some [])
        (demo_world\<lparr>calls := calls demo_world @ [ConfigResolve 0 ''/old''] @
           [OnOpen PathLevel 1 ((demo_resolve ''/old'')\<lparr>router := Some 0\<rparr>)
              (demo_redirect ((demo_resolve ''/old'')\<lparr>router := Some 0\<rparr>))]\<rparr>) =
       Inr (demo_redirect ((demo_resolve ''/old'')\<lparr>router := Some 0\<rparr>),
          demo_world\<lparr>calls := calls demo_world @ [ConfigResolve 0 ''/old''] @
             OnOpen PathLevel 1 ((demo_resolve ''/old'')\<lparr>router := Some 0\<rparr>)
               (demo_redirect ((demo_resolve ''/old'')\<lparr>router := Some 0\<rparr>)) # []\<rparr>)"
proof -
  have p: "original_path (demo_redirect ((demo_resolve ''/old'')\<lparr>router := Some 0\<rparr>)) \<noteq>
           original_path ((demo_resolve ''/old'')\<lparr>router := Some 0\<rparr>)"
    by (simp add: demo_redirect_def demo_resolve_def demo_page_def)
  have c: "calls (demo_world\<lparr>calls := calls demo_world @ [ConfigResolve 0 ''/old''] @
             OnOpen PathLevel 1 ((demo_resolve ''/old'')\<lparr>router := Some 0\<rparr>)
               (demo_redirect ((demo_resolve ''/old'')\<lparr>router := Some 0\<rparr>)) # []\<rparr>) =
           calls demo_world @ [ConfigResolve 0 ''/old''] @
             OnOpen PathLevel 1 ((demo_resolve ''/old'')\<lparr>router := Some 0\<rparr>)
               (demo_redirect ((demo_resolve ''/old'')\<lparr>router := Some 0\<rparr>)) # []"
    by simp
  from resolve_target_restart_on_rewrite[OF demo_resolve_old c p] demo_resolve_old
  show ?thesis by (simp add: demo_redirect_def demo_resolve_def demo_page_def)
qed

text \<open>
  Claim C6. The recursion of \<^verbatim>\<open>resolve_target\<close> has a fixed bound, whatever the
  callbacks do: the only calls of \<^verbatim>\<open>resolve_target\<close> to itself are the restarts after
  a rewritten path, a restart is called with a Target instance where the outer call had
  a URL, and a call with a Target instance makes no recursive call (it returns at line
  105 or 107). So a chain of restarts has length one at most, and the function is total:
  its definition above comes with a termination proof. \<open>resolve_target_rel y x\<close> is the
  call relation of the definition: the call with the arguments \<open>x\<close> calls
  \<^verbatim>\<open>resolve_target\<close> with the arguments \<open>y\<close>.
\<close>

theorem resolve_target_restart_bounded:
  "resolve_target_rel (env', rid', tgt', ud', w') (env, rid, tgt, ud, w) \<Longrightarrow>
     (\<exists>s. tgt = Url s) \<and> (\<exists>t. tgt' = Tgt t) \<and> (\<forall>z. \<not> resolve_target_rel z (env', rid', tgt', ud', w'))"
proof -
  assume a: "resolve_target_rel (env', rid', tgt', ud', w') (env, rid, tgt, ud, w)"
  have shape: "\<And>x y. resolve_target_rel y x \<Longrightarrow> (\<exists>t. fst (snd (snd y)) = Tgt t) \<and> (\<exists>s. fst (snd (snd x)) = Url s)"
    by (erule resolve_target_rel.cases) auto
  from shape[OF a] have 1: "(\<exists>s. tgt = Url s) \<and> (\<exists>t. tgt' = Tgt t)" by auto
  have "\<not> resolve_target_rel z (env', rid', tgt', ud', w')" for z
  proof
    assume "resolve_target_rel z (env', rid', tgt', ud', w')"
    from shape[OF this] 1 show False by auto
  qed
  with 1 show ?thesis by blast
qed

theorem resolve_target_restart_bounded_witness:
  "resolve_target_rel
     (demo_env, 0, Tgt (demo_redirect ((demo_resolve ''/old'')\<lparr>router := Some 0\<rparr>)), Some [],
      log_call (OnOpen PathLevel 1 ((demo_resolve ''/old'')\<lparr>router := Some 0\<rparr>)
                 (demo_redirect ((demo_resolve ''/old'')\<lparr>router := Some 0\<rparr>)))
        (log_call (ConfigResolve 0 ''/old'') demo_world))
     (demo_env, 0, Url ''/old'', Some [], demo_world)
   \<and> (\<forall>z. \<not> resolve_target_rel z
     (demo_env, 0, Tgt (demo_redirect ((demo_resolve ''/old'')\<lparr>router := Some 0\<rparr>)), Some [],
      log_call (OnOpen PathLevel 1 ((demo_resolve ''/old'')\<lparr>router := Some 0\<rparr>)
                 (demo_redirect ((demo_resolve ''/old'')\<lparr>router := Some 0\<rparr>)))
        (log_call (ConfigResolve 0 ''/old'') demo_world)))"
  using resolve_target_restart_bounded[OF demo_rel] demo_rel by simp


section \<open>Delegation, veto and Target instances in \<^verbatim>\<open>navigate_to\<close>\<close>

lemma find_Some_holds: "find P xs = Some x \<Longrightarrow> P x \<and> x \<in> set xs"
  by (induction xs) (auto split: if_splits)

lemma find_child_first:
  assumes "(m, c) \<in> set cs" and "matches_child env s m"
  shows "\<exists>m' c'. find_child env s cs = Some (m', c') \<and> (m', c') \<in> set cs \<and> matches_child env s m'"
proof -
  from assms have "find (\<lambda>(path_mask, frame). matches_child env s path_mask) cs \<noteq> None"
    by (auto simp: find_None_iff)
  then obtain m' c' where f: "find (\<lambda>(path_mask, frame). matches_child env s path_mask) cs = Some (m', c')"
    by auto
  then have "(m', c') \<in> set cs \<and> matches_child env s m'"
    using find_Some_holds[OF f] by auto
  with f show ?thesis by (auto simp: find_child_def)
qed

lemma demo_find_child:
  "find_child demo_env ''/services/storage'' (child_routers (routers nested_world 0)) =
     Some (''/services'', 1)"
  by (simp add: find_child_def nested_world_def demo_world_def demo_router_def matches_child_def
      demo_env_def rstrip_def)

lemma find_child_None:
  "(\<forall>m c. (m, c) \<in> set cs \<longrightarrow> \<not> (fnmatch env s m \<or> fnmatch env s (rstrip CHR ''/'' m @ ''/*'')))
     \<Longrightarrow> find_child env s cs = None"
  by (auto simp: find_child_def find_None_iff matches_child_def)

lemma handle_navigate_veto:
  assumes "(\<exists>h. cb_on_navigate (routers w rid) = Some h \<and> nav_hook env h s = Inr None)
         \<or> (\<exists>s1. (cb_on_navigate (routers w rid) = None \<and> s1 = s
                   \<or> (\<exists>h. cb_on_navigate (routers w rid) = Some h \<and> nav_hook env h s = Inr (Some s1)))
                \<and> config_handle_navigate env (router_config (routers w rid)) s1 = Inr None)"
  shows "\<exists>evs. handle_navigate env rid s w = Inr (None, w\<lparr>calls := evs\<rparr>)"
  using assms by (auto simp: handle_navigate_def log_call_def)

lemma env_fields:
  "app_title (env\<lparr>fnmatch := fm, nav_hook := nh, config_handle_navigate := hn\<rparr>) = app_title env"
  "resolve_hook (env\<lparr>fnmatch := fm, nav_hook := nh, config_handle_navigate := hn\<rparr>) = resolve_hook env"
  "open_hook (env\<lparr>fnmatch := fm, nav_hook := nh, config_handle_navigate := hn\<rparr>) = open_hook env"
  "config_resolve_target (env\<lparr>fnmatch := fm, nav_hook := nh, config_handle_navigate := hn\<rparr>) =
     config_resolve_target env"
  "builder_params (env\<lparr>fnmatch := fm, nav_hook := nh, config_handle_navigate := hn\<rparr>) = builder_params env"
  "builder_run (env\<lparr>fnmatch := fm, nav_hook := nh, config_handle_navigate := hn\<rparr>) = builder_run env"
  "run_safe_call (env\<lparr>fnmatch := fm, nav_hook := nh, config_handle_navigate := hn\<rparr>) = run_safe_call env"
  by simp_all

lemma config_on_open_env:
  "config_on_open (env\<lparr>fnmatch := fm, nav_hook := nh, config_handle_navigate := hn\<rparr>) orig c t w =
   config_on_open env orig c t w"
  by (induction env orig c t w rule: config_on_open.induct) (auto split: option.splits sum.splits)

lemma run_on_open_env:
  "run_on_open (env\<lparr>fnmatch := fm, nav_hook := nh, config_handle_navigate := hn\<rparr>) r ud orig t w =
   run_on_open env r ud orig t w"
  unfolding run_on_open_def router_on_open_def path_on_open_def config_on_open_env env_fields ..

lemma try_on_resolve_env:
  "try_on_resolve (env\<lparr>fnmatch := fm, nav_hook := nh, config_handle_navigate := hn\<rparr>) rid r tgt w =
   try_on_resolve env rid r tgt w"
  unfolding try_on_resolve_def env_fields ..

lemma resolve_target_env:
  "resolve_target (env\<lparr>fnmatch := fm, nav_hook := nh, config_handle_navigate := hn\<rparr>) rid tgt ud w =
   resolve_target env rid tgt ud w"
proof -
  have tg: "resolve_target (env\<lparr>fnmatch := fm, nav_hook := nh, config_handle_navigate := hn\<rparr>) rid (Tgt t) ud w =
            resolve_target env rid (Tgt t) ud w" for t w
    unfolding resolve_target_Tgt try_on_resolve_env ..
  show ?thesis
  proof (cases tgt)
    case (Tgt t)
    then show ?thesis by (simp add: tg)
  next
    case (Url s)
    show ?thesis unfolding Url
      apply (subst resolve_target.simps)
      apply (subst (2) resolve_target.simps)
      unfolding try_on_resolve_env run_on_open_env tg env_fields ..
  qed
qed

lemma update_content_env:
  "update_content (env\<lparr>fnmatch := fm, nav_hook := nh, config_handle_navigate := hn\<rparr>) rid b kw ttl frag sync w =
   update_content env rid b kw ttl frag sync w"
  unfolding update_content_def exec_builder_def call_builder_def params_def title_or_default_def
    env_fields ..

lemma swap_content_env:
  "swap_content (env\<lparr>fnmatch := fm, nav_hook := nh, config_handle_navigate := hn\<rparr>) rid t b js hk sync w =
   swap_content env rid t b js hk sync w"
  unfolding swap_content_def update_content_env title_or_default_def env_fields ..

lemma navigate_resolved_env:
  "navigate_resolved (env\<lparr>fnmatch := fm, nav_hook := nh, config_handle_navigate := hn\<rparr>) rid tgt sync history w =
   navigate_resolved env rid tgt sync history w"
  unfolding navigate_resolved_def resolve_for_navigation_def finish_navigation_def
    swap_content_env resolve_target_env ..

lemma resolve_target_instance:
  "cb_on_resolve (routers w rid) = None \<Longrightarrow> resolve_target env rid (Tgt t) ud w = Inr (t, w)"
  by (simp add: resolve_target_Tgt try_on_resolve_def)

text \<open>
  Claim C2. When the string target matches the mask of a registered child router, as it
  is or extended with \<^verbatim>\<open>/*\<close>, \<^verbatim>\<open>navigate_to\<close> is the navigation of a child router
  and nothing else: the first entry of \<^verbatim>\<open>child_routers\<close> whose mask matches is taken,
  the target and \<^verbatim>\<open>server_side\<close> are handed over as they are, and the whole outcome of
  the parent's call, the world with everything written to the browser and every call
  recorded, is the outcome of the child's call. The parent resolves nothing, sets no
  title and pushes no history entry of its own.
\<close>

theorem navigate_to_delegates_to_child:
  assumes "(m, c) \<in> set (child_routers (routers w rid))"
      and "fnmatch env s m \<or> fnmatch env s (rstrip CHR ''/'' m @ ''/*'')"
  shows "\<exists>m' c'. find_child env s (child_routers (routers w rid)) = Some (m', c')
           \<and> (m', c') \<in> set (child_routers (routers w rid))
           \<and> (fnmatch env s m' \<or> fnmatch env s (rstrip CHR ''/'' m' @ ''/*''))
           \<and> navigate_to env rid (Url s) server_side sync history w =
               navigate_to env c' (Url s) server_side False True w"
proof -
  from assms(2) have "matches_child env s m" by (simp add: matches_child_def)
  from find_child_first[OF assms(1) this] obtain m' c'
    where f: "find_child env s (child_routers (routers w rid)) = Some (m', c')"
      "(m', c') \<in> set (child_routers (routers w rid))" "matches_child env s m'" by blast
  have "navigate_to env rid (Url s) server_side sync history w =
        navigate_to env c' (Url s) server_side False True w"
    by (subst navigate_to.simps) (simp add: f(1))
  with f show ?thesis by (auto simp: matches_child_def)
qed

theorem navigate_to_delegates_to_child_witness:
  "(''/services'', 1) \<in> set (child_routers (routers nested_world 0))
   \<and> fnmatch demo_env ''/services/storage'' (rstrip CHR ''/'' ''/services'' @ ''/*'')
   \<and> navigate_to demo_env 0 (Url ''/services/storage'') True True True nested_world =
       navigate_to demo_env 1 (Url ''/services/storage'') True False True nested_world"
proof -
  have a: "(''/services'', 1) \<in> set (child_routers (routers nested_world 0))"
    by (simp add: nested_world_def demo_world_def demo_router_def)
  have b: "fnmatch demo_env ''/services/storage'' (rstrip CHR ''/'' ''/services'' @ ''/*'')"
    by (simp add: demo_env_def rstrip_def)
  from navigate_to_delegates_to_child[OF a disjI2[OF b], of True True True] demo_find_child a b
  show ?thesis by auto
qed

text \<open>
  Claim C3. For a string target that no child router takes (only then are the callbacks
  consulted, lines 160 to 165): when the router's \<^verbatim>\<open>on_navigate\<close> callback returns
  \<^verbatim>\<open>None\<close>, or the config's \<^verbatim>\<open>handle_navigate\<close> returns \<^verbatim>\<open>None\<close> for the target as
  \<^verbatim>\<open>on_navigate\<close> left it, \<^verbatim>\<open>navigate_to\<close> returns and has changed no router and no
  frame (content, recorded \<^verbatim>\<open>target_url\<close>, of this router and of every other), sent
  nothing to the browser (no history entry, no title) and scheduled no build.
\<close>

theorem navigate_to_veto_is_noop:
  assumes nochild: "\<forall>m c. (m, c) \<in> set (child_routers (routers w rid)) \<longrightarrow>
                      \<not> (fnmatch env s m \<or> fnmatch env s (rstrip CHR ''/'' m @ ''/*''))"
      and veto: "(\<exists>h. cb_on_navigate (routers w rid) = Some h \<and> nav_hook env h s = Inr None)
         \<or> (\<exists>s1. (cb_on_navigate (routers w rid) = None \<and> s1 = s
                   \<or> (\<exists>h. cb_on_navigate (routers w rid) = Some h \<and> nav_hook env h s = Inr (Some s1)))
                \<and> config_handle_navigate env (router_config (routers w rid)) s1 = Inr None)"
  shows "\<exists>w'. navigate_to env rid (Url s) server_side sync history w = Some (Inr w')
            \<and> routers w' = routers w \<and> ui_log w' = ui_log w \<and> tasks w' = tasks w
            \<and> slot_stack w' = slot_stack w"
proof -
  from handle_navigate_veto[OF veto] obtain evs
    where h: "handle_navigate env rid s w = Inr (None, w\<lparr>calls := evs\<rparr>)" by blast
  have "navigate_to env rid (Url s) server_side sync history w = Some (Inr (w\<lparr>calls := evs\<rparr>))"
    by (subst navigate_to.simps) (simp add: find_child_None[OF nochild] h)
  then show ?thesis by auto
qed

theorem navigate_to_veto_is_noop_witness:
  "cb_on_navigate (routers demo_world 0) = Some 0 \<and> nav_hook demo_env 0 ''/admin'' = Inr None
   \<and> child_routers (routers demo_world 0) = []
   \<and> (\<exists>w'. navigate_to demo_env 0 (Url ''/admin'') True True True demo_world = Some (Inr w')
            \<and> routers w' = routers demo_world \<and> ui_log w' = ui_log demo_world
            \<and> tasks w' = tasks demo_world \<and> slot_stack w' = slot_stack demo_world)"
proof -
  have a: "cb_on_navigate (routers demo_world 0) = Some 0 \<and> nav_hook demo_env 0 ''/admin'' = Inr None"
    by (simp add: demo_world_def demo_router_def demo_env_def)
  have b: "child_routers (routers demo_world 0) = []"
    by (simp add: demo_world_def demo_router_def)
  have "\<exists>w'. navigate_to demo_env 0 (Url ''/admin'') True True True demo_world = Some (Inr w')
            \<and> routers w' = routers demo_world \<and> ui_log w' = ui_log demo_world
            \<and> tasks w' = tasks demo_world \<and> slot_stack w' = slot_stack demo_world"
    by (rule navigate_to_veto_is_noop) (use a b in auto)
  with a b show ?thesis by blast
qed

text \<open>
  Claim C10. Called with a Target instance, \<^verbatim>\<open>navigate_to\<close> goes straight to lines 168
  and following: it returns what they compute, and the outcome does not depend on the
  glob matcher that decides the delegation to a child router, nor on what the
  \<^verbatim>\<open>on_navigate\<close> callbacks and the config's \<^verbatim>\<open>handle_navigate\<close> would return.
  And a router without \<^verbatim>\<open>on_resolve\<close> callback resolves a Target instance to itself,
  with no call recorded: no \<^verbatim>\<open>on_open\<close> callback runs.
\<close>

theorem navigate_to_target_instance:
  "navigate_to env rid (Tgt t) server_side sync history w =
     Some (navigate_resolved env rid (Tgt t) sync history w)
   \<and> navigate_to (env\<lparr>fnmatch := fm, nav_hook := nh, config_handle_navigate := hn\<rparr>) rid (Tgt t)
       server_side sync history w =
     navigate_to env rid (Tgt t) server_side sync history w
   \<and> (cb_on_resolve (routers w rid) = None \<longrightarrow> resolve_target env rid (Tgt t) ud w = Inr (t, w))"
  by (simp add: navigate_to.simps[of _ _ "Tgt t"] navigate_resolved_env resolve_target_instance)

theorem navigate_to_target_instance_witness:
  "cb_on_resolve (routers demo_world 0) = None
   \<and> resolve_target demo_env 0 (Tgt (demo_page ''/old'')) (Some []) demo_world =
       Inr (demo_page ''/old'', demo_world)
   \<and> navigate_to (demo_env\<lparr>fnmatch := (\<lambda>n p. True), nav_hook := (\<lambda>h s. Inr None),
                           config_handle_navigate := (\<lambda>c s. Inr None)\<rparr>) 0 (Tgt (demo_page ''/old''))
       True True True demo_world =
     navigate_to demo_env 0 (Tgt (demo_page ''/old'')) True True True demo_world"
proof -
  have "cb_on_resolve (routers demo_world 0) = None"
    by (simp add: demo_world_def demo_router_def)
  with navigate_to_target_instance[where env=demo_env and rid=0 and t="demo_page ''/old''"
      and server_side=True and sync=True and history=True and w=demo_world
      and fm="\<lambda>n p. True" and nh="\<lambda>h s. Inr None" and hn="\<lambda>c s. Inr None" and ud="Some []"]
  show ?thesis by simp
qed


section \<open>Recording the target URL along the parent chain\<close>

lemma update_target_url_loop_raises:
  "0 < n \<Longrightarrow> update_target_url_loop n cur_router url w = Inl AttributeError"
  by (cases n) (simp_all add: frame_set_target_url_def)

text \<open>
  Claim C7, evaluated on the code. The first iteration of the loop of
  \<^verbatim>\<open>_update_target_url\<close> assigns to the property \<^verbatim>\<open>target_url\<close> of the frame, which has
  no setter. So the method raises \<^verbatim>\<open>AttributeError\<close> for every router, every URL and
  every parent chain, before a URL is recorded anywhere and before the parent is looked
  at: the cap of \<^verbatim>\<open>PATH_RESOLVING_MAX_RECURSION\<close> = 100 iterations never comes into play.
  And a loop whose iterations are used up ends in a normal return: the method has no
  statement that raises at the cap.
\<close>

theorem update_target_url_raises:
  "update_target_url rid url w = Inl AttributeError
   \<and> PATH_RESOLVING_MAX_RECURSION = 100
   \<and> update_target_url_loop 0 rid url w = Inr w"
  by (simp add: update_target_url_def PATH_RESOLVING_MAX_RECURSION_def update_target_url_loop_raises)

section \<open>The keyword arguments a builder receives\<close>

lemma filter_update_other:
  "k \<notin> A \<Longrightarrow> filter (\<lambda>(k', v). k' \<in> A) (AList.update k x d) = filter (\<lambda>(k', v). k' \<in> A) d"
  by (induction d) auto

lemma filter_dict_merge_other:
  "fst ` set e \<inter> A = {} \<Longrightarrow>
     filter (\<lambda>(k', v). k' \<in> A) (dict_merge d e) = filter (\<lambda>(k', v). k' \<in> A) d"
  unfolding dict_merge_def
  by (induction e arbitrary: d) (auto simp: filter_update_other)

lemma update_content_sync:
  "update_content env rid b kw ttl frag True w =
     (case call_builder env b (filter (\<lambda>(k, v). k \<in> set (params env b)) kw)
             (enter rid (frame_clear rid
                (if fr_change_title (router_frame (routers w rid))
                 then log_ui (PageTitle (title_or_default env ttl)) w else w))) of
        Inl e \<Rightarrow> Inl e
      | Inr w3 \<Rightarrow>
          Inr (leave (case frag of
                        None \<Rightarrow> w3
                      | Some f \<Rightarrow> log_ui (RunJavascript [GotoFragment f]) w3)))"
  by (simp add: update_content_def exec_builder_def Let_def)

lemma update_content_queued:
  "update_content env rid b kw ttl frag False w =
     Inr ((frame_clear rid
             (if fr_change_title (router_frame (routers w rid))
              then log_ui (PageTitle (title_or_default env ttl)) w else w))
          \<lparr>tasks := tasks w @ [BuildTask rid b kw frag]\<rparr>)"
  by (simp add: update_content_def Let_def frame_clear_def map_frame_def map_router_def log_ui_def)

lemma build_filtered:
  "build env (BuildTask rid b kw frag) w =
     (case call_builder env b (filter (\<lambda>(k, v). k \<in> set (params env b)) kw) (enter rid w) of
        Inl e \<Rightarrow> Inl e
      | Inr w1 \<Rightarrow>
          Inr (leave (case frag of
                        None \<Rightarrow> w1
                      | Some f \<Rightarrow> log_ui (RunJavascript [GotoFragment f]) w1)))"
  by (simp add: build_def exec_builder_def Let_def)

text \<open>
  Claim C5. Whatever dictionary \<^verbatim>\<open>update_content\<close> is given, the one call of the builder
  it makes has as keyword arguments the entries of the dictionary whose keys are names of
  the builder's parameters, in their order, and no other entry. With \<^verbatim>\<open>_sync\<close> set the
  call is made at once, inside the cleared frame and after the frame's title; the result
  of \<^verbatim>\<open>update_content\<close> is the result of that call, followed by the jump to the
  fragment. Without \<^verbatim>\<open>_sync\<close> nothing is called: one task is queued, which holds the
  builder and the whole dictionary, and the build of that task makes the same call with
  the filtered entries when it runs. Entries under keys that are no parameter names are
  dropped: adding them to the dictionary changes nothing in what \<^verbatim>\<open>update_content\<close> or
  the scheduled build does; in particular they raise no error.
\<close>

theorem update_content_filters_kwargs:
  assumes "fst ` set extra \<inter> set (params env b) = {}"
  shows "exec_builder env b kw w =
           call_builder env b (filter (\<lambda>(k, v). k \<in> set (params env b)) kw) w
       \<and> update_content env rid b kw ttl frag True w =
           (case call_builder env b (filter (\<lambda>(k, v). k \<in> set (params env b)) kw)
                   (enter rid (frame_clear rid
                      (if fr_change_title (router_frame (routers w rid))
                       then log_ui (PageTitle (title_or_default env ttl)) w else w))) of
              Inl e \<Rightarrow> Inl e
            | Inr w3 \<Rightarrow>
                Inr (leave (case frag of
                              None \<Rightarrow> w3
                            | Some f \<Rightarrow> log_ui (RunJavascript [GotoFragment f]) w3)))
       \<and> update_content env rid b kw ttl frag False w =
           Inr ((frame_clear rid
                   (if fr_change_title (router_frame (routers w rid))
                    then log_ui (PageTitle (title_or_default env ttl)) w else w))
                \<lparr>tasks := tasks w @ [BuildTask rid b kw frag]\<rparr>)
       \<and> build env (BuildTask rid b kw frag) w =
           (case call_builder env b (filter (\<lambda>(k, v). k \<in> set (params env b)) kw) (enter rid w) of
              Inl e \<Rightarrow> Inl e
            | Inr w1 \<Rightarrow>
                Inr (leave (case frag of
                              None \<Rightarrow> w1
                            | Some f \<Rightarrow> log_ui (RunJavascript [GotoFragment f]) w1)))
       \<and> filter (\<lambda>(k, v). k \<in> set (params env b)) (dict_merge kw extra) =
           filter (\<lambda>(k, v). k \<in> set (params env b)) kw
       \<and> update_content env rid b (dict_merge kw extra) ttl frag True w =
           update_content env rid b kw ttl frag True w
       \<and> build env (BuildTask rid b (dict_merge kw extra) frag) w =
           build env (BuildTask rid b kw frag) w"
proof -
  have f: "filter (\<lambda>(k, v). k \<in> set (params env b)) (dict_merge kw extra) =
           filter (\<lambda>(k, v). k \<in> set (params env b)) kw"
    using assms by (rule filter_dict_merge_other)
  have e: "exec_builder env b kw w =
           call_builder env b (filter (\<lambda>(k, v). k \<in> set (params env b)) kw) w"
    by (simp add: exec_builder_def)
  have u: "update_content env rid b (dict_merge kw extra) ttl frag True w =
           update_content env rid b kw ttl frag True w"
    unfolding update_content_sync f ..
  have t: "build env (BuildTask rid b (dict_merge kw extra) frag) w =
           build env (BuildTask rid b kw frag) w"
    unfolding build_filtered f ..
  from e update_content_sync update_content_queued build_filtered f u t show ?thesis
    by (intro conjI)
qed

theorem update_content_filters_kwargs_witness:
  "fst ` set [(''menu_drawer'', VObj 7)] \<inter> set (params demo_env (Builder 0)) = {}
   \<and> dict_merge [(''url_path'', VStr ''/'')] [(''menu_drawer'', VObj 7)] =
       [(''url_path'', VStr ''/''), (''menu_drawer'', VObj 7)]
   \<and> filter (\<lambda>(k, v). k \<in> set (params demo_env (Builder 0)))
         [(''url_path'', VStr ''/''), (''menu_drawer'', VObj 7)] = [(''url_path'', VStr ''/'')]
   \<and> update_content demo_env 0 (Builder 0) [(''url_path'', VStr ''/''), (''menu_drawer'', VObj 7)]
        None None True demo_world =
      update_content demo_env 0 (Builder 0) [(''url_path'', VStr ''/'')] None None True demo_world
   \<and> update_content demo_env 0 (Builder 0) [(''url_path'', VStr ''/''), (''menu_drawer'', VObj 7)]
        None None True demo_world =
      (case call_builder demo_env (Builder 0) [(''url_path'', VStr ''/'')]
              (enter 0 (frame_clear 0 (log_ui (PageTitle ''NiceCLOUD Portal'') demo_world))) of
         Inl e \<Rightarrow> Inl e
       | Inr w3 \<Rightarrow> Inr (leave w3))
   \<and> update_content demo_env 0 (Builder 0) [(''url_path'', VStr ''/''), (''menu_drawer'', VObj 7)]
        None None False demo_world =
      Inr ((frame_clear 0 (log_ui (PageTitle ''NiceCLOUD Portal'') demo_world))
           \<lparr>tasks := [BuildTask 0 (Builder 0)
                        [(''url_path'', VStr ''/''), (''menu_drawer'', VObj 7)] None]\<rparr>)"
proof -
  have a: "fst ` set [(''menu_drawer'', VObj 7)] \<inter> set (params demo_env (Builder 0)) = {}"
    by (simp add: params_def demo_env_def)
  have p: "params demo_env (Builder 0) = [''url_path'']" by (simp add: params_def demo_env_def)
  have m: "dict_merge [(''url_path'', VStr ''/'')] [(''menu_drawer'', VObj 7)] =
       [(''url_path'', VStr ''/''), (''menu_drawer'', VObj 7)]"
    by (simp add: dict_merge_def)
  have c: "fr_change_title (router_frame (routers demo_world 0)) = True" "tasks demo_world = []"
    "title_or_default demo_env None = ''NiceCLOUD Portal''"
    by (simp_all add: demo_world_def demo_router_def title_or_default_def demo_env_def)
  note T = update_content_filters_kwargs[OF a, where kw="[(''url_path'', VStr ''/'')]"
      and w=demo_world and rid=0 and ttl=None and frag=None]
  note U = update_content_filters_kwargs[OF a,
      where kw="[(''url_path'', VStr ''/''), (''menu_drawer'', VObj 7)]"
      and w=demo_world and rid=0 and ttl=None and frag=None]
  from T have t1: "update_content demo_env 0 (Builder 0)
        (dict_merge [(''url_path'', VStr ''/'')] [(''menu_drawer'', VObj 7)]) None None True demo_world =
      update_content demo_env 0 (Builder 0) [(''url_path'', VStr ''/'')] None None True demo_world"
    by (elim conjE)
  from T have t2: "filter (\<lambda>(k, v). k \<in> set (params demo_env (Builder 0)))
         (dict_merge [(''url_path'', VStr ''/'')] [(''menu_drawer'', VObj 7)]) =
       filter (\<lambda>(k, v). k \<in> set (params demo_env (Builder 0))) [(''url_path'', VStr ''/'')]"
    by (elim conjE)
  from U have u1: "update_content demo_env 0 (Builder 0)
        [(''url_path'', VStr ''/''), (''menu_drawer'', VObj 7)] None None True demo_world =
      (case call_builder demo_env (Builder 0)
              (filter (\<lambda>(k, v). k \<in> set (params demo_env (Builder 0)))
                 [(''url_path'', VStr ''/''), (''menu_drawer'', VObj 7)])
              (enter 0 (frame_clear 0
                 (if fr_change_title (router_frame (routers demo_world 0))
                  then log_ui (PageTitle (title_or_default demo_env None)) demo_world
                  else demo_world))) of
         Inl e \<Rightarrow> Inl e
       | Inr w3 \<Rightarrow> Inr (leave (case None of
                                  None \<Rightarrow> w3
                                | Some f \<Rightarrow> log_ui (RunJavascript [GotoFragment f]) w3)))"
    by (elim conjE)
  from U have u2: "update_content demo_env 0 (Builder 0)
        [(''url_path'', VStr ''/''), (''menu_drawer'', VObj 7)] None None False demo_world =
      Inr ((frame_clear 0
              (if fr_change_title (router_frame (routers demo_world 0))
               then log_ui (PageTitle (title_or_default demo_env None)) demo_world
               else demo_world))
           \<lparr>tasks := tasks demo_world @ [BuildTask 0 (Builder 0)
                        [(''url_path'', VStr ''/''), (''menu_drawer'', VObj 7)] None]\<rparr>)"
    by (elim conjE)
  have f: "filter (\<lambda>(k, v). k \<in> set (params demo_env (Builder 0)))
         [(''url_path'', VStr ''/''), (''menu_drawer'', VObj 7)] = [(''url_path'', VStr ''/'')]"
    using t2 unfolding m by (simp add: p)
  note u1' = u1[unfolded f c if_True option.case]
  note u2' = u2[unfolded c if_True append_Nil]
  from a m f t1[unfolded m] u1' u2' show ?thesis
    by (intro conjI)
qed


section \<open>The base path of a new router\<close>












lemma RouterFrame_init_raises:
  "RouterFrame_init
     [''base_path'', ''target_url'', ''included_paths'', ''excluded_paths'',
      ''use_browser_history'', ''on_navigate'', ''user_data''] inc exc url = Inl TypeError"
  by (simp add: RouterFrame_init_def RouterFrame_init_params_def)

lemma SinglePageRouter_init_raises:
  "\<exists>e. SinglePageRouter_init config inc exc ubh ct parent turl ud self w = Inl e"
  unfolding SinglePageRouter_init_def Let_def RouterFrame_init_raises
  by (simp split: sum.splits)




section \<open>The not-found page\<close>

lemma navigate_resolved_raises:
  "\<exists>e. navigate_resolved env rid tgt sync history w = Inl e"
  by (simp add: navigate_resolved_def resolve_for_navigation_def frame_user_data_def
      split: sum.splits option.splits)

lemma finish_navigation_raises:
  "valid t \<Longrightarrow> finish_navigation env rid t hk sync history w = Inl AttributeError"
  using update_target_url_loop_raises[of PATH_RESOLVING_MAX_RECURSION rid "original_path t" w]
  by (simp add: finish_navigation_def update_target_url_def PATH_RESOLVING_MAX_RECURSION_def Let_def)

lemma demo_handle_navigate:
  "handle_navigate demo_env 0 ''/does/not/exist'' demo_world =
     Inr (Some ''/does/not/exist'',
          demo_world\<lparr>calls := [OnNavigate 0 0 ''/does/not/exist'' (Some ''/does/not/exist''),
                               HandleNavigate 0 ''/does/not/exist'' (Some ''/does/not/exist'')]\<rparr>)"
  by (simp add: handle_navigate_def demo_env_def demo_world_def demo_router_def log_call_def)

lemma demo_resolve_for_navigation:
  "resolve_for_navigation demo_env 0 (Url ''/does/not/exist'')
      (demo_world\<lparr>calls := [OnNavigate 0 0 ''/does/not/exist'' (Some ''/does/not/exist''),
                               HandleNavigate 0 ''/does/not/exist'' (Some ''/does/not/exist'')]\<rparr>) =
     Inl AttributeError"
  by (simp add: resolve_for_navigation_def get_user_data_def frame_user_data_def demo_world_def
      demo_router_def)

text \<open>
  Claim C4, evaluated on the code. Router 0 of the small application has no child
  router, its callbacks let \<^verbatim>\<open>/does/not/exist\<close> pass, and the config resolves that path to
  a valid Target with no builder and no fragment. \<^verbatim>\<open>navigate_to\<close> raises
  \<^verbatim>\<open>AttributeError\<close> all the same: line 168 reads \<^verbatim>\<open>self.router_frame.user_data\<close>, which
  the frame does not have, so the target is not even resolved. And the lines after the
  resolution, given that Target, raise \<^verbatim>\<open>AttributeError\<close> at line 176, where
  \<^verbatim>\<open>_update_target_url\<close> assigns to the frame's \<^verbatim>\<open>target_url\<close>: the substitution of the
  not-found Target at line 185 is not reached.
\<close>

theorem navigate_to_unregistered_path_raises:
  "find_child demo_env ''/does/not/exist'' (child_routers (routers demo_world 0)) = None
   \<and> config_resolve_target demo_env (router_config (routers demo_world 0)) ''/does/not/exist'' =
       Inr (Some (demo_resolve ''/does/not/exist''))
   \<and> valid (demo_resolve ''/does/not/exist'')
   \<and> builder (demo_resolve ''/does/not/exist'') = None
   \<and> fragment (demo_resolve ''/does/not/exist'') = None
   \<and> navigate_to demo_env 0 (Url ''/does/not/exist'') True True True demo_world =
       Some (Inl AttributeError)
   \<and> finish_navigation demo_env 0 ((demo_resolve ''/does/not/exist'')\<lparr>router := Some 0\<rparr>)
         [(''url_path'', VStr ''/does/not/exist'')] True True demo_world = Inl AttributeError"
proof -
  have fc: "find_child demo_env ''/does/not/exist'' (child_routers (routers demo_world 0)) = None"
    by (simp add: find_child_def demo_world_def demo_router_def)
  have cr: "config_resolve_target demo_env (router_config (routers demo_world 0)) ''/does/not/exist'' =
       Inr (Some (demo_resolve ''/does/not/exist''))"
    by (simp add: demo_env_def)
  have t: "valid (demo_resolve ''/does/not/exist'')" "builder (demo_resolve ''/does/not/exist'') = None"
    "fragment (demo_resolve ''/does/not/exist'') = None"
    by (simp_all add: demo_resolve_def demo_page_def)
  have nav: "navigate_to demo_env 0 (Url ''/does/not/exist'') True True True demo_world =
       Some (Inl AttributeError)"
    by (subst navigate_to.simps)
      (simp add: fc demo_handle_navigate navigate_resolved_def demo_resolve_for_navigation)
  have fin: "finish_navigation demo_env 0 ((demo_resolve ''/does/not/exist'')\<lparr>router := Some 0\<rparr>)
         [(''url_path'', VStr ''/does/not/exist'')] True True demo_world = Inl AttributeError"
    by (rule finish_navigation_raises) (simp add: t)
  from fc cr t nav fin show ?thesis by (intro conjI)
qed


section \<open>Who sets the page title\<close>









end
